theory Spec2Isabelle
  imports Complex_Main
begin

section \<open>Python values and the outside world\<close>

text \<open>
  The service of \<^verbatim>\<open>image.py\<close> handles decoded JSON payloads with Python's dynamic
  operations: \<^verbatim>\<open>d.get(k, default)\<close>, truth tests (\<^verbatim>\<open>if not x\<close>, \<^verbatim>\<open>a or b\<close>,
  \<^verbatim>\<open>filter(None, ...)\<close>), subscripts and string methods. A decoded payload is a value
  of \<open>json\<close>; a Python \<^verbatim>\<open>dict\<close> is the list of its items in insertion order (its keys
  are distinct), \<^verbatim>\<open>None\<close> is \<open>JNull\<close>. A float is modelled by its value as a real
  number: the code only tests floats for zero, passes them on and formats them. A string is
  the list of its bytes; the code looks for the ASCII characters \<open>+\<close> and \<open>T\<close> only,
  which are single bytes wherever they stand.
\<close>

datatype json =
    JNull
  | JBool bool
  | JInt int
  | JFloat real
  | JStr string
  | JArr "json list"
  | JObj "(string \<times> json) list"

text \<open>The exceptions the modelled code can raise.\<close>

datatype py_error =
    AttributeError
  | TypeError
  | KeyError
  | IndexError
  | RequestException
  | JSONDecodeError
  | DetectorError

fun ebind :: "py_error + 'a \<Rightarrow> ('a \<Rightarrow> py_error + 'b) \<Rightarrow> py_error + 'b" where
  "ebind (Inl e) f = Inl e"
| "ebind (Inr x) f = f x"

text \<open>Python's truth value of an object: \<^verbatim>\<open>bool(x)\<close>.\<close>

fun truthy :: "json \<Rightarrow> bool" where
  "truthy JNull = False"
| "truthy (JBool b) = b"
| "truthy (JInt n) = (n \<noteq> 0)"
| "truthy (JFloat r) = (r \<noteq> 0)"
| "truthy (JStr s) = (s \<noteq> [])"
| "truthy (JArr xs) = (xs \<noteq> [])"
| "truthy (JObj kvs) = (kvs \<noteq> [])"

text \<open>\<^verbatim>\<open>a or b\<close> on values.\<close>

definition py_or :: "json \<Rightarrow> json \<Rightarrow> json" where
  "py_or a b = (if truthy a then a else b)"

text \<open>
  \<^verbatim>\<open>d.get(k, default)\<close> with a string literal \<open>k\<close>: only a dict has the method; on
  any other object the attribute lookup raises \<^verbatim>\<open>AttributeError\<close>.
\<close>

definition dict_get :: "json \<Rightarrow> string \<Rightarrow> json \<Rightarrow> py_error + json" where
  "dict_get d k dflt =
     (case d of
        JObj kvs \<Rightarrow> Inr (case map_of kvs k of Some v \<Rightarrow> v | None \<Rightarrow> dflt)
      | _ \<Rightarrow> Inl AttributeError)"

text \<open>
  A dict the code builds itself, as the list of its items: \<^verbatim>\<open>d.get(k)\<close> cannot raise
  on it and gives \<^verbatim>\<open>None\<close> for a missing key; \<^verbatim>\<open>d[k] = v\<close> replaces the value of an
  existing key and appends a new one; \<^verbatim>\<open>{**d, **e}\<close> stores the items of \<open>e\<close> in turn.
\<close>

type_synonym dict = "(string \<times> json) list"

definition dget :: "dict \<Rightarrow> string \<Rightarrow> json" where
  "dget d k = (case map_of d k of Some v \<Rightarrow> v | None \<Rightarrow> JNull)"

fun dict_store :: "dict \<Rightarrow> string \<Rightarrow> json \<Rightarrow> dict" where
  "dict_store [] k v = [(k, v)]"
| "dict_store ((k', v') # d) k v =
     (if k' = k then (k, v) # d else (k', v') # dict_store d k v)"

definition dict_merge :: "dict \<Rightarrow> dict \<Rightarrow> dict" where
  "dict_merge d e = fold (\<lambda>kv acc. dict_store acc (fst kv) (snd kv)) e d"

text \<open>Lists and dicts are unhashable: using one as a set element or dict key raises.\<close>

fun hashable :: "json \<Rightarrow> bool" where
  "hashable (JArr xs) = False"
| "hashable (JObj kvs) = False"
| "hashable v = True"

text \<open>
  \<^verbatim>\<open>d.get(key, default)\<close> where the key is itself a decoded value. The keys of a decoded
  JSON object are strings, so a hashable key that is not a string is never found.
\<close>

definition dict_get_key :: "json \<Rightarrow> json \<Rightarrow> json \<Rightarrow> py_error + json" where
  "dict_get_key d key dflt =
     (case d of
        JObj kvs \<Rightarrow>
          (case key of
             JStr k \<Rightarrow> Inr (case map_of kvs k of Some v \<Rightarrow> v | None \<Rightarrow> dflt)
           | _ \<Rightarrow> if hashable key then Inr dflt else Inl TypeError)
      | _ \<Rightarrow> Inl AttributeError)"

text \<open>\<^verbatim>\<open>x[0]\<close>.\<close>

fun subscript0 :: "json \<Rightarrow> py_error + json" where
  "subscript0 (JArr []) = Inl IndexError"
| "subscript0 (JArr (x # xs)) = Inr x"
| "subscript0 (JStr []) = Inl IndexError"
| "subscript0 (JStr (c # cs)) = Inr (JStr [c])"
| "subscript0 (JObj kvs) = Inl KeyError"
| "subscript0 v = Inl TypeError"

text \<open>\<^verbatim>\<open>for c in x\<close>: the elements of a list, the keys of a dict, the characters of a string.\<close>

fun py_iter :: "json \<Rightarrow> py_error + json list" where
  "py_iter (JArr xs) = Inr xs"
| "py_iter (JObj kvs) = Inr (map (\<lambda>kv. JStr (fst kv)) kvs)"
| "py_iter (JStr s) = Inr (map (\<lambda>c. JStr [c]) s)"
| "py_iter v = Inl TypeError"

text \<open>A list comprehension whose element expression can raise.\<close>

fun map_res :: "('a \<Rightarrow> py_error + 'b) \<Rightarrow> 'a list \<Rightarrow> py_error + 'b list" where
  "map_res f [] = Inr []"
| "map_res f (x # xs) = ebind (f x) (\<lambda>y. ebind (map_res f xs) (\<lambda>ys. Inr (y # ys)))"

text \<open>\<^verbatim>\<open>s.lstrip("+")\<close> and \<^verbatim>\<open>s.split("T")[0]\<close>.\<close>

definition lstrip :: "char \<Rightarrow> string \<Rightarrow> string" where
  "lstrip c s = dropWhile (\<lambda>x. x = c) s"

definition split_first :: "char \<Rightarrow> string \<Rightarrow> string" where
  "split_first c s = takeWhile (\<lambda>x. x \<noteq> c) s"

section \<open>Claim projection\<close>

text \<open>\<^verbatim>\<open>value["time"].lstrip("+").split("T")[0]\<close>: a value without the string methods raises.\<close>

definition time_date :: "json \<Rightarrow> py_error + json" where
  "time_date t =
     (case t of
        JStr s \<Rightarrow> Inr (JStr (split_first CHR ''T'' (lstrip CHR ''+'' s)))
      | _ \<Rightarrow> Inl AttributeError)"

text \<open>The body of the \<^verbatim>\<open>try\<close> of \<^verbatim>\<open>extract_claim_value\<close>.\<close>

definition claim_value_body :: "json \<Rightarrow> bool \<Rightarrow> py_error + json" where
  "claim_value_body claims is_url =
     ebind (subscript0 claims) (\<lambda>c.
     ebind (dict_get c ''mainsnak'' (JObj [])) (\<lambda>snak.
     ebind (dict_get snak ''datavalue'' (JObj [])) (\<lambda>dv.
     ebind (dict_get dv ''value'' JNull) (\<lambda>v.
       if is_url then Inr v
       else (case v of
               JObj kvs \<Rightarrow>
                 (case map_of kvs ''time'' of
                    Some t \<Rightarrow> time_date t
                  | None \<Rightarrow> Inr v)
             | _ \<Rightarrow> Inr v)))))"

definition extract_claim_value :: "json \<Rightarrow> bool \<Rightarrow> json" where
  "extract_claim_value claims is_url =
     (if \<not> truthy claims then JNull
      else (case claim_value_body claims is_url of
              Inl e \<Rightarrow> JNull
            | Inr v \<Rightarrow> v))"

section \<open>The runtime and the network\<close>

text \<open>
  What the code takes from the Python runtime and its libraries, as parameters:
  \<^item> \<open>set_order xs\<close>: the order in which \<^verbatim>\<open>set(xs)\<close> is iterated. CPython lists each
    distinct element once; the order follows the hashes, which for strings are randomised
    per process, so nothing else is known about it;
  \<^item> \<open>str_float\<close>: the text an f-string gives a float;
  \<open>str_value\<close>: the text an f-string gives a value that is not a string;
  \<^item> \<open>url_quote\<close>: \<^verbatim>\<open>urllib.parse.quote\<close>.
\<close>

record runtime =
  set_order :: "json list \<Rightarrow> json list"
  str_float :: "real \<Rightarrow> string"
  str_value :: "json \<Rightarrow> string"
  url_quote :: "string \<Rightarrow> string"

text \<open>
  A request made with \<^verbatim>\<open>requests.get\<close> (every one with \<^verbatim>\<open>timeout=5\<close>), and what comes
  back: \<open>Failed\<close> when \<^verbatim>\<open>requests.get\<close> raises (timeout, connection error), else the
  status code with the decoded body, \<open>None\<close> when \<^verbatim>\<open>response.json()\<close> raises.
  The network answers a request knowing the requests made before it; the history of requests
  is the state the functions thread.
\<close>

datatype request =
  Get (url: string) (params: "(string \<times> json) list") (headers: "(string \<times> string) list")

datatype http_result = Failed | Response int "json option"

type_synonym network = "request list \<Rightarrow> request \<Rightarrow> http_result"

type_synonym 'a io = "request list \<Rightarrow> (py_error + 'a) \<times> request list"

definition io_pure :: "py_error + 'a \<Rightarrow> 'a io" where
  "io_pure r hist = (r, hist)"

definition io_bind :: "'a io \<Rightarrow> ('a \<Rightarrow> 'b io) \<Rightarrow> 'b io" where
  "io_bind m f hist =
     (case m hist of
        (Inl e, hist') \<Rightarrow> (Inl e, hist')
      | (Inr x, hist') \<Rightarrow> f x hist')"

definition http_get :: "network \<Rightarrow> request \<Rightarrow> (int \<times> json option) io" where
  "http_get net req hist =
     (case net hist req of
        Failed \<Rightarrow> (Inl RequestException, hist @ [req])
      | Response st b \<Rightarrow> (Inr (st, b), hist @ [req]))"

text \<open>\<^verbatim>\<open>response.json()\<close>.\<close>

definition response_json :: "int \<times> json option \<Rightarrow> py_error + json" where
  "response_json resp = (case snd resp of None \<Rightarrow> Inl JSONDecodeError | Some j \<Rightarrow> Inr j)"

section \<open>Resolving entity references to labels\<close>

text \<open>\<^verbatim>\<open>c.get("mainsnak", {}).get("datavalue", {}).get("value", {}).get("id")\<close>\<close>

definition entity_id :: "json \<Rightarrow> py_error + json" where
  "entity_id c =
     ebind (dict_get c ''mainsnak'' (JObj [])) (\<lambda>snak.
     ebind (dict_get snak ''datavalue'' (JObj [])) (\<lambda>dv.
     ebind (dict_get dv ''value'' (JObj [])) (\<lambda>v.
     dict_get v ''id'' JNull)))"

text \<open>The comprehension \<^verbatim>\<open>[... for c in claims]\<close>.\<close>

definition referenced_ids :: "json \<Rightarrow> py_error + json list" where
  "referenced_ids claims = ebind (py_iter claims) (map_res entity_id)"

text \<open>\<^verbatim>\<open>set(entity_ids)\<close>, iterated.\<close>

definition py_set :: "runtime \<Rightarrow> json list \<Rightarrow> py_error + json list" where
  "py_set env xs = (if list_all hashable xs then Inr (set_order env xs) else Inl TypeError)"

text \<open>\<^verbatim>\<open>"|".join(entity_ids)\<close>: every item must be a string.\<close>

definition str_item :: "json \<Rightarrow> py_error + string" where
  "str_item v = (case v of JStr s \<Rightarrow> Inr s | _ \<Rightarrow> Inl TypeError)"

fun join :: "string \<Rightarrow> string list \<Rightarrow> string" where
  "join sep [] = []"
| "join sep [s] = s"
| "join sep (s # t # ss) = s @ sep @ join sep (t # ss)"

definition join_ids :: "json list \<Rightarrow> py_error + string" where
  "join_ids ids = ebind (map_res str_item ids) (\<lambda>ss. Inr (join ''|'' ss))"

definition label_request :: "string \<Rightarrow> request" where
  "label_request ids =
     Get ''https://www.wikidata.org/w/api.php''
       [(''action'', JStr ''wbgetentities''), (''ids'', JStr ids), (''format'', JStr ''json''),
        (''props'', JStr ''labels''), (''languages'', JStr ''en'')] []"

text \<open>\<^verbatim>\<open>data.get("labels", {}).get("en", {}).get("value", qid)\<close>\<close>

definition entity_label :: "json \<Rightarrow> string \<Rightarrow> py_error + json" where
  "entity_label data qid =
     ebind (dict_get data ''labels'' (JObj [])) (\<lambda>ls.
     ebind (dict_get ls ''en'' (JObj [])) (\<lambda>en.
     dict_get en ''value'' (JStr qid)))"

text \<open>The loop \<^verbatim>\<open>for qid, data in ....items(): labels[qid] = ...\<close> over the items of a dict.\<close>

fun build_labels :: "(string \<times> json) list \<Rightarrow> (string \<rightharpoonup> json) \<Rightarrow> py_error + (string \<rightharpoonup> json)" where
  "build_labels [] labels = Inr labels"
| "build_labels ((qid, data) # rest) labels =
     ebind (entity_label data qid) (\<lambda>v. build_labels rest (labels(qid \<mapsto> v)))"

text \<open>\<^verbatim>\<open>x.items()\<close>\<close>

definition dict_items :: "json \<Rightarrow> py_error + (string \<times> json) list" where
  "dict_items d = (case d of JObj kvs \<Rightarrow> Inr kvs | _ \<Rightarrow> Inl AttributeError)"

definition response_labels :: "json \<Rightarrow> py_error + (string \<rightharpoonup> json)" where
  "response_labels j =
     ebind (dict_get j ''entities'' (JObj [])) (\<lambda>ents.
     ebind (dict_items ents) (\<lambda>items.
     build_labels items Map.empty))"

text \<open>\<^verbatim>\<open>labels.get(eid, eid)\<close>: the keys of \<open>labels\<close> are strings.\<close>

definition lookup_label :: "(string \<rightharpoonup> json) \<Rightarrow> json \<Rightarrow> json" where
  "lookup_label labels eid =
     (case eid of
        JStr s \<Rightarrow> (case labels s of Some v \<Rightarrow> v | None \<Rightarrow> eid)
      | _ \<Rightarrow> eid)"

text \<open>The body of the \<^verbatim>\<open>try\<close> of \<^verbatim>\<open>extract_entity_labels\<close>.\<close>

definition labels_body :: "network \<Rightarrow> json list \<Rightarrow> json list io" where
  "labels_body net entity_ids =
     io_bind (io_pure (join_ids entity_ids)) (\<lambda>ids.
     io_bind (http_get net (label_request ids)) (\<lambda>resp.
       if fst resp \<noteq> 200 then io_pure (Inr [])
       else
         io_bind (io_pure (response_json resp)) (\<lambda>j.
         io_bind (io_pure (response_labels j)) (\<lambda>labels.
         io_pure (Inr (map (lookup_label labels) entity_ids))))))"

text \<open>
  \<^verbatim>\<open>extract_entity_labels\<close>. The comprehension and the \<^verbatim>\<open>set\<close> stand before the
  \<^verbatim>\<open>try\<close>: what they raise leaves the function.
\<close>

definition extract_entity_labels :: "runtime \<Rightarrow> network \<Rightarrow> json \<Rightarrow> json list io" where
  "extract_entity_labels env net claims hist =
     (if \<not> truthy claims then (Inr [], hist)
      else
        (case referenced_ids claims of
           Inl e \<Rightarrow> (Inl e, hist)
         | Inr raw \<Rightarrow>
             (case py_set env raw of
                Inl e \<Rightarrow> (Inl e, hist)
              | Inr s \<Rightarrow>
                  (let entity_ids = filter truthy s in
                   if entity_ids = [] then (Inr [], hist)
                   else
                     (case labels_body net entity_ids hist of
                        (Inl e, hist') \<Rightarrow> (Inr [], hist')
                      | (Inr ls, hist') \<Rightarrow> (Inr ls, hist'))))))"

section \<open>The knowledge-graph entity\<close>

definition entity_request :: "json \<Rightarrow> request" where
  "entity_request wikidata_id =
     Get ''https://www.wikidata.org/w/api.php''
       [(''action'', JStr ''wbgetentities''), (''ids'', wikidata_id), (''format'', JStr ''json''),
        (''props'', JStr ''claims|descriptions|labels''), (''languages'', JStr ''en'')] []"

text \<open>\<^verbatim>\<open>entity_data.get("descriptions", {}).get("en", {}).get("value", "")\<close>\<close>

definition entity_description :: "json \<Rightarrow> py_error + json" where
  "entity_description entity_data =
     ebind (dict_get entity_data ''descriptions'' (JObj [])) (\<lambda>ds.
     ebind (dict_get ds ''en'' (JObj [])) (\<lambda>en.
     dict_get en ''value'' (JStr [])))"

text \<open>The body of the \<^verbatim>\<open>try\<close> of \<^verbatim>\<open>get_wikidata_info\<close>; the dict display is evaluated in order.\<close>

definition wikidata_body :: "runtime \<Rightarrow> network \<Rightarrow> json \<Rightarrow> dict io" where
  "wikidata_body env net wikidata_id =
     io_bind (http_get net (entity_request wikidata_id)) (\<lambda>resp.
       if fst resp \<noteq> 200 then io_pure (Inr [])
       else
         io_bind (io_pure (response_json resp)) (\<lambda>j.
         io_bind (io_pure (dict_get j ''entities'' (JObj []))) (\<lambda>ents.
         io_bind (io_pure (dict_get_key ents wikidata_id (JObj []))) (\<lambda>entity_data.
         io_bind (io_pure (dict_get entity_data ''claims'' (JObj []))) (\<lambda>claims.
         io_bind (io_pure (entity_description entity_data)) (\<lambda>description.
         io_bind (io_pure (dict_get claims ''P571'' (JArr []))) (\<lambda>p571.
         io_bind (io_pure (dict_get claims ''P149'' (JArr []))) (\<lambda>p149.
         io_bind (extract_entity_labels env net p149) (\<lambda>styles.
         io_bind (io_pure (dict_get claims ''P17'' (JArr []))) (\<lambda>p17.
         io_bind (extract_entity_labels env net p17) (\<lambda>country.
         io_bind (io_pure (dict_get claims ''P856'' (JArr []))) (\<lambda>p856.
         io_pure (Inr
           [(''description'', description),
            (''inception_date'', extract_claim_value p571 False),
            (''architectural_styles'', JArr styles),
            (''country'', JArr country),
            (''official_website'', extract_claim_value p856 True)])))))))))))))"

definition get_wikidata_info :: "runtime \<Rightarrow> network \<Rightarrow> json \<Rightarrow> request list \<Rightarrow> dict \<times> request list" where
  "get_wikidata_info env net wikidata_id hist =
     (if \<not> truthy wikidata_id then ([], hist)
      else
        (case wikidata_body env net wikidata_id hist of
           (Inl e, hist') \<Rightarrow> ([], hist')
         | (Inr info, hist') \<Rightarrow> (info, hist')))"

section \<open>Reverse geocoding\<close>

definition geocode_request :: "runtime \<Rightarrow> real \<Rightarrow> real \<Rightarrow> request" where
  "geocode_request env lat lon =
     Get (''https://nominatim.openstreetmap.org/reverse?format=json&lat='' @ str_float env lat
            @ ''&lon='' @ str_float env lon)
       []
       [(''User-Agent'', ''LandmarkInfoService/1.0 (contact@example.com)'')]"

text \<open>\<^verbatim>\<open>address.get("city") or address.get("town") or address.get("village")\<close>\<close>

definition address_city :: "json \<Rightarrow> py_error + json" where
  "address_city address =
     ebind (dict_get address ''city'' JNull) (\<lambda>city.
       if truthy city then Inr city
       else
         ebind (dict_get address ''town'' JNull) (\<lambda>town.
           if truthy town then Inr town
           else dict_get address ''village'' JNull))"

text \<open>
  The body of the \<^verbatim>\<open>try\<close> of \<^verbatim>\<open>get_location_details\<close>, with the \<^verbatim>\<open>return {}\<close> that
  a status other than 200 falls through to.
\<close>

definition geocode_body :: "runtime \<Rightarrow> network \<Rightarrow> real \<Rightarrow> real \<Rightarrow> dict io" where
  "geocode_body env net lat lon =
     io_bind (http_get net (geocode_request env lat lon)) (\<lambda>resp.
       if fst resp = 200 then
         io_bind (io_pure (response_json resp)) (\<lambda>j.
         io_bind (io_pure (dict_get j ''address'' (JObj []))) (\<lambda>address.
         io_bind (io_pure (dict_get address ''country'' JNull)) (\<lambda>country.
         io_bind (io_pure (address_city address)) (\<lambda>city.
         io_pure (Inr [(''country'', country), (''city'', city)])))))
       else io_pure (Inr []))"

definition get_location_details :: "runtime \<Rightarrow> network \<Rightarrow> real \<Rightarrow> real \<Rightarrow> request list \<Rightarrow> dict \<times> request list" where
  "get_location_details env net lat lon hist =
     (case geocode_body env net lat lon hist of
        (Inl e, hist') \<Rightarrow> ([], hist')
      | (Inr d, hist') \<Rightarrow> (d, hist'))"

section \<open>The endpoint\<close>

text \<open>
  What the landmark detector returns, as far as the code reads it: the name of a landmark
  and its locations, each with its \<^verbatim>\<open>lat_lng\<close> (\<open>None\<close> when \<^verbatim>\<open>loc.lat_lng\<close> is false).
\<close>

record lat_lng =
  latitude :: real
  longitude :: real

record landmark =
  description :: string
  locations :: "lat_lng option list"

text \<open>The comprehension that keeps the locations with a \<^verbatim>\<open>lat_lng\<close>.\<close>

fun candidates :: "lat_lng option list \<Rightarrow> lat_lng list" where
  "candidates [] = []"
| "candidates (None # ls) = candidates ls"
| "candidates (Some ll # ls) = ll # candidates ls"

definition coordinates :: "lat_lng \<Rightarrow> json" where
  "coordinates loc = JObj [(''latitude'', JFloat (latitude loc)), (''longitude'', JFloat (longitude loc))]"

definition maps_link :: "runtime \<Rightarrow> lat_lng \<Rightarrow> string" where
  "maps_link env loc =
     ''https://maps.google.com/?q='' @ str_float env (latitude loc) @ '','' @ str_float env (longitude loc)"

definition wikipedia_request :: "runtime \<Rightarrow> string \<Rightarrow> request" where
  "wikipedia_request env name =
     Get (''https://en.wikipedia.org/api/rest_v1/page/summary/'' @ url_quote env name) [] []"

text \<open>
  The inner \<^verbatim>\<open>try\<close> of \<^verbatim>\<open>analyze_image\<close>: \<open>wiki_data\<close> stays \<^verbatim>\<open>{}\<close> unless the
  status is 200 and the body decodes; then it is the decoded body, whatever its shape.
\<close>

definition fetch_wiki_data :: "runtime \<Rightarrow> network \<Rightarrow> string \<Rightarrow> request list \<Rightarrow> json \<times> request list" where
  "fetch_wiki_data env net name hist =
     (case http_get net (wikipedia_request env name) hist of
        (Inl e, hist') \<Rightarrow> (JObj [], hist')
      | (Inr resp, hist') \<Rightarrow>
          if fst resp = 200 then
            (case response_json resp of
               Inl e \<Rightarrow> (JObj [], hist')
             | Inr j \<Rightarrow> (j, hist'))
          else (JObj [], hist'))"

text \<open>The block "Prepare location details".\<close>

definition locate :: "runtime \<Rightarrow> network \<Rightarrow> lat_lng list \<Rightarrow> request list \<Rightarrow> dict \<times> request list" where
  "locate env net locs hist =
     (case locs of
        [] \<Rightarrow> ([], hist)
      | loc # rest \<Rightarrow>
          (case get_location_details env net (latitude loc) (longitude loc) hist of
             (geo, hist') \<Rightarrow>
               (dict_store (dict_merge [(''coordinates'', coordinates loc)] geo)
                  ''maps_link'' (JStr (maps_link env loc)),
                hist')))"

text \<open>An f-string field: a string as it is, any other value through \<^verbatim>\<open>str\<close>.\<close>

definition format_value :: "runtime \<Rightarrow> json \<Rightarrow> string" where
  "format_value env v = (case v of JStr s \<Rightarrow> s | _ \<Rightarrow> str_value env v)"

text \<open>
  \<^verbatim>\<open>wikidata_info.get("description") or wiki_data.get("extract") or "No description available"\<close>
\<close>

definition merged_description :: "dict \<Rightarrow> json \<Rightarrow> py_error + json" where
  "merged_description wikidata_info wiki_data =
     (if truthy (dget wikidata_info ''description'') then Inr (dget wikidata_info ''description'')
      else
        ebind (dict_get wiki_data ''extract'' JNull) (\<lambda>extract.
          Inr (py_or extract (JStr ''No description available''))))"

text \<open>\<^verbatim>\<open>wiki_data.get("content_urls", {}).get("desktop", {}).get("page")\<close>\<close>

definition wikipedia_page :: "json \<Rightarrow> py_error + json" where
  "wikipedia_page wiki_data =
     ebind (dict_get wiki_data ''content_urls'' (JObj [])) (\<lambda>urls.
     ebind (dict_get urls ''desktop'' (JObj [])) (\<lambda>desktop.
     dict_get desktop ''page'' JNull))"

text \<open>The dict display \<open>result\<close>, evaluated in order.\<close>

definition build_result :: "runtime \<Rightarrow> string \<Rightarrow> json \<Rightarrow> json \<Rightarrow> dict \<Rightarrow> dict \<Rightarrow> py_error + json" where
  "build_result env landmark_name wiki_data wikidata_id wikidata_info location_details =
     ebind (merged_description wikidata_info wiki_data) (\<lambda>descr.
     ebind (dict_get wiki_data ''description'' JNull) (\<lambda>significance.
     ebind (wikipedia_page wiki_data) (\<lambda>page.
     Inr (JObj
       [(''name'', JStr landmark_name),
        (''description'', descr),
        (''historical_context'', JObj
           [(''inception_date'', dget wikidata_info ''inception_date''),
            (''architectural_styles'', dget wikidata_info ''architectural_styles''),
            (''significance'', significance)]),
        (''location'', JObj location_details),
        (''official_website'', dget wikidata_info ''official_website''),
        (''references'', JObj
           [(''wikipedia'', page),
            (''wikidata'',
               if truthy wikidata_id
               then JStr (''https://www.wikidata.org/wiki/'' @ format_value env wikidata_id)
               else JNull),
            (''google_maps'', dget location_details ''maps_link'')])]))))"

text \<open>
  The reply of the endpoint: the enriched record with status 200, a refusal with its status
  and message, or status 500 with the text of the exception that reached the outer handler.
\<close>

datatype reply = Enriched json | Rejected nat string | Faulted py_error

text \<open>
  \<^verbatim>\<open>analyze_image\<close>. \<open>has_image\<close>: whether the upload has the part \<^verbatim>\<open>image\<close>;
  \<open>detection\<close>: what \<^verbatim>\<open>client.landmark_detection\<close> does, raising or returning the
  landmark annotations.
\<close>

definition analyze_image ::
  "runtime \<Rightarrow> network \<Rightarrow> bool \<Rightarrow> py_error + landmark list \<Rightarrow> request list \<Rightarrow> reply \<times> request list" where
  "analyze_image env net has_image detection hist =
     (if \<not> has_image then (Rejected 400 ''No image file provided'', hist)
      else
        (case detection of
           Inl e \<Rightarrow> (Faulted e, hist)
         | Inr landmarks \<Rightarrow>
             (case landmarks of
                [] \<Rightarrow> (Rejected 404 ''No landmarks detected'', hist)
              | lm # others \<Rightarrow>
                  (case fetch_wiki_data env net (description lm) hist of
                     (wiki_data, hist1) \<Rightarrow>
                       (case dict_get wiki_data ''wikibase_item'' JNull of
                          Inl e \<Rightarrow> (Faulted e, hist1)
                        | Inr wikidata_id \<Rightarrow>
                            (case (if truthy wikidata_id
                                   then get_wikidata_info env net wikidata_id hist1
                                   else ([], hist1)) of
                               (wikidata_info, hist2) \<Rightarrow>
                                 (case locate env net (candidates (locations lm)) hist2 of
                                    (location_details, hist3) \<Rightarrow>
                                      (case build_result env (description lm) wiki_data wikidata_id
                                              wikidata_info location_details of
                                         Inl e \<Rightarrow> (Faulted e, hist3)
                                       | Inr result \<Rightarrow> (Enriched result, hist3)))))))))"

section \<open>Reading a record; sample payloads\<close>

text \<open>
  The field of an object, and the value at the end of a path of fields.
\<close>

definition field :: "json \<Rightarrow> string \<Rightarrow> json option" where
  "field v k = (case v of JObj kvs \<Rightarrow> map_of kvs k | _ \<Rightarrow> None)"

fun path :: "json \<Rightarrow> string list \<Rightarrow> json option" where
  "path v [] = Some v"
| "path v (k # ks) = (case field v k of None \<Rightarrow> None | Some w \<Rightarrow> path w ks)"

text \<open>The English label an entity of a label response carries, if it carries one.\<close>

definition english_label :: "json \<Rightarrow> json option" where
  "english_label data = path data [''labels'', ''en'', ''value'']"

text \<open>A value that may be missing, read as Python's \<^verbatim>\<open>d.get(k)\<close> reads it.\<close>

definition or_null :: "json option \<Rightarrow> json" where
  "or_null x = (case x of Some v \<Rightarrow> v | None \<Rightarrow> JNull)"

text \<open>A field of the output is absent when it is missing or null.\<close>

definition absent :: "json option \<Rightarrow> bool" where
  "absent x = (x = None \<or> x = Some JNull)"

text \<open>A call to a source fails when the request raises or the status is not 200.\<close>

definition failed :: "http_result \<Rightarrow> bool" where
  "failed r = (case r of Failed \<Rightarrow> True | Response st b \<Rightarrow> st \<noteq> 200)"

text \<open>The value at a path of the enriched record of a reply, if the reply has one.\<close>

definition reply_path :: "reply \<Rightarrow> string list \<Rightarrow> json option" where
  "reply_path r ks = (case r of Enriched out \<Rightarrow> path out ks | _ \<Rightarrow> None)"

text \<open>The entities a label response lists, with what it says of each.\<close>

definition response_entities :: "json \<Rightarrow> (string \<times> json) list" where
  "response_entities j = (case field j ''entities'' of Some (JObj kvs) \<Rightarrow> kvs | _ \<Rightarrow> [])"

text \<open>
  A label response the label loop runs through without a fault: the body is an object; its
  \<open>entities\<close>, if it has them, are an object; and every entity listed is an object whose
  \<open>labels\<close>, and the \<open>en\<close> of those, are objects where they are there.
\<close>

fun is_obj :: "json \<Rightarrow> bool" where
  "is_obj (JObj kvs) = True"
| "is_obj v = False"

definition entity_readable :: "json \<Rightarrow> bool" where
  "entity_readable data =
     (is_obj data \<and>
      (case field data ''labels'' of
         None \<Rightarrow> True
       | Some ls \<Rightarrow>
           is_obj ls \<and> (case field ls ''en'' of None \<Rightarrow> True | Some en \<Rightarrow> is_obj en)))"

definition label_response_ok :: "json \<Rightarrow> bool" where
  "label_response_ok j =
     (is_obj j \<and>
      (case field j ''entities'' of
         None \<Rightarrow> True
       | Some ents \<Rightarrow> is_obj ents \<and> list_all (\<lambda>kv. entity_readable (snd kv)) (response_entities j)))"

text \<open>
  The label a response resolves an identifier to: the \<open>labels.en.value\<close> of the entity
  listed under the identifier, and the identifier itself when the entity is not listed or
  has no such value.
\<close>

definition label_value :: "json \<Rightarrow> string \<Rightarrow> json" where
  "label_value data q = (case english_label data of Some v \<Rightarrow> v | None \<Rightarrow> JStr q)"

definition resolved_label :: "json \<Rightarrow> json \<Rightarrow> json" where
  "resolved_label j eid =
     (case eid of
        JStr q \<Rightarrow>
          (case map_of (response_entities j) q of
             Some data \<Rightarrow> label_value data q
           | None \<Rightarrow> eid)
      | _ \<Rightarrow> eid)"




text \<open>
  What CPython grants of the iteration of \<^verbatim>\<open>set(xs)\<close>: every element of \<open>xs\<close> comes
  once. (For the strings and \<^verbatim>\<open>None\<close> that identifiers are, equal in Python is equal here.)
\<close>

definition enumerates :: "runtime \<Rightarrow> json list \<Rightarrow> bool" where
  "enumerates env xs = (distinct (set_order env xs) \<and> set (set_order env xs) = set xs)"

text \<open>A computation that adds at most \<open>n\<close> requests to the history.\<close>

definition sends_at_most :: "nat \<Rightarrow> 'a io \<Rightarrow> bool" where
  "sends_at_most n m = (\<forall>hist. \<exists>reqs. snd (m hist) = hist @ reqs \<and> length reqs \<le> n)"

text \<open>A claim as the knowledge graph sends it, with its value; a claim that refers to an entity.\<close>

definition claim_of :: "json \<Rightarrow> json" where
  "claim_of v = JObj [(''mainsnak'', JObj [(''datavalue'', JObj [(''value'', v)])])]"

definition ref_claim :: "string \<Rightarrow> json" where
  "ref_claim q = claim_of (JObj [(''id'', JStr q)])"

definition time_claim :: "string \<Rightarrow> json" where
  "time_claim t = claim_of (JObj [(''time'', JStr t)])"

text \<open>
  A runtime for the scenarios. Its sets are iterated last-seen element first, one of the
  orders a run of CPython can show.
\<close>

definition sample_str_float :: "real \<Rightarrow> string" where
  "sample_str_float r = (if r = 48.8584 then ''48.8584'' else if r = 2.2945 then ''2.2945'' else ''0.0'')"

definition sample_quote :: "string \<Rightarrow> string" where
  "sample_quote s = concat (map (\<lambda>c. if c = CHR '' '' then ''%20'' else [c]) s)"

definition sample_runtime :: runtime where
  "sample_runtime =
     \<lparr>set_order = (\<lambda>xs. rev (remdups xs)), str_float = sample_str_float,
      str_value = (\<lambda>v. []), url_quote = sample_quote\<rparr>"

text \<open>The detection of the Eiffel Tower, with and without a coordinate.\<close>

definition eiffel :: landmark where
  "eiffel = \<lparr>description = ''Eiffel Tower'', locations = [Some \<lparr>latitude = 48.8584, longitude = 2.2945\<rparr>]\<rparr>"

definition eiffel_unplaced :: landmark where
  "eiffel_unplaced = \<lparr>description = ''Eiffel Tower'', locations = []\<rparr>"

text \<open>Payloads of the three sources.\<close>

definition wiki_summary :: json where
  "wiki_summary =
     JObj [(''extract'', JStr ''The Eiffel Tower is a lattice tower in Paris.''),
           (''description'', JStr ''Tower in Paris''),
           (''wikibase_item'', JStr ''Q243''),
           (''content_urls'', JObj [(''desktop'', JObj [(''page'', JStr ''https://en.wikipedia.org/wiki/Eiffel_Tower'')])])]"

definition wiki_empty_extract :: json where
  "wiki_empty_extract = JObj [(''extract'', JStr []), (''description'', JStr ''Tower in Paris'')]"

definition eiffel_entity :: json where
  "eiffel_entity =
     JObj [(''entities'', JObj [(''Q243'', JObj
       [(''descriptions'', JObj [(''en'', JObj [(''value'', JStr ''tower on the Champ de Mars'')])]),
        (''claims'', JObj
          [(''P571'', JArr [time_claim ''+1889-03-31T00:00:00Z'']),
           (''P149'', JArr [ref_claim ''Q1'', ref_claim ''Q2'']),
           (''P17'', JArr [ref_claim ''Q142'']),
           (''P856'', JArr [claim_of (JStr ''https://www.toureiffel.paris'')])])])])]"


definition label_payload :: json where
  "label_payload =
     JObj [(''entities'', JObj
       [(''Q1'', JObj [(''labels'', JObj [(''en'', JObj [(''value'', JStr ''iron architecture'')])])]),
        (''Q2'', JObj [(''labels'', JObj [])]),
        (''Q142'', JObj [(''labels'', JObj [(''en'', JObj [(''value'', JStr ''France'')])])])])]"

text \<open>
  A network that tells the sources apart by the address and, at the knowledge graph, by the
  properties asked for.
\<close>

definition scenario_net :: "http_result \<Rightarrow> http_result \<Rightarrow> http_result \<Rightarrow> http_result \<Rightarrow> network" where
  "scenario_net wiki entity labels geo hist req =
     (if url req = ''https://www.wikidata.org/w/api.php''
      then (if map_of (params req) ''props'' = Some (JStr ''labels'') then labels else entity)
      else if headers req = [] then wiki else geo)"

text \<open>The encyclopedia and the knowledge graph answer; the geocoder answers 503.\<close>

definition eiffel_net :: network where
  "eiffel_net =
     scenario_net (Response 200 (Some wiki_summary)) (Response 200 (Some eiffel_entity))
       (Response 200 (Some label_payload)) (Response 503 None)"


text \<open>A label response whose entity Q1 has \<open>labels\<close> null, and no other entity.\<close>

definition label_null_payload :: json where
  "label_null_payload = JObj [(''entities'', JObj [(''Q1'', JObj [(''labels'', JNull)])])]"

text \<open>A summary whose \<open>wikibase_item\<close> is there as the empty string.\<close>

definition wiki_empty_reference :: json where
  "wiki_empty_reference =
     JObj [(''extract'', JStr ''The Eiffel Tower is a lattice tower in Paris.''),
           (''wikibase_item'', JStr [])]"

section \<open>The rules as the specification words them\<close>

text \<open>
  The description by the precedence of the specification, over the description of the
  knowledge graph and the extract of the encyclopedia, each present or not.
\<close>

definition claimed_description :: "json option \<Rightarrow> json option \<Rightarrow> json" where
  "claimed_description kg extract =
     (case kg of
        Some d \<Rightarrow> d
      | None \<Rightarrow> (case extract of Some e \<Rightarrow> e | None \<Rightarrow> JStr ''No description available''))"

text \<open>
  The date of a time value by the words of the specification: a leading sign character is
  stripped and the time of day dropped. The signs of a time value are \<open>+\<close> and \<open>-\<close>.
\<close>

definition claimed_date :: "string \<Rightarrow> string" where
  "claimed_date t =
     takeWhile (\<lambda>x. x \<noteq> CHR ''T'')
       (case t of [] \<Rightarrow> [] | c # cs \<Rightarrow> if c = CHR ''+'' \<or> c = CHR ''-'' then cs else t)"

text \<open>The elements of a list without repetition, in the order of their first occurrence.\<close>

definition first_occurrences :: "'a list \<Rightarrow> 'a list" where
  "first_occurrences xs = rev (remdups (rev xs))"

section \<open>Properties of the endpoint\<close>

lemmas io_defs = io_bind_def io_pure_def http_get_def response_json_def

lemmas endpoint_defs =
  analyze_image_def fetch_wiki_data_def wikipedia_request_def get_wikidata_info_def
  locate_def get_location_details_def geocode_body_def geocode_request_def
  build_result_def merged_description_def wikipedia_page_def format_value_def
  coordinates_def maps_link_def dict_merge_def dget_def dict_get_def py_or_def

lemmas scenario_defs =
  sample_runtime_def sample_str_float_def sample_quote_def eiffel_def eiffel_unplaced_def
  wiki_summary_def wiki_empty_extract_def eiffel_entity_def label_payload_def scenario_net_def
  claim_of_def ref_claim_def time_claim_def

lemmas reading_defs = field_def absent_def reply_path_def or_null_def

lemmas label_defs =
  extract_entity_labels_def referenced_ids_def entity_id_def py_set_def labels_body_def
  join_ids_def str_item_def label_request_def response_labels_def dict_items_def
  entity_label_def lookup_label_def
  wikidata_body_def entity_request_def dict_get_key_def entity_description_def
  extract_claim_value_def claim_value_body_def time_date_def lstrip_def split_first_def

lemmas run_defs = eiffel_net_def endpoint_defs scenario_defs io_defs label_defs reading_defs

lemma get_wikidata_info_falsy:
  "\<not> truthy wikidata_id \<Longrightarrow> get_wikidata_info env net wikidata_id hist = ([], hist)"
  by (simp add: get_wikidata_info_def)

lemma dict_get_field:
  "dict_get d k JNull = Inr v \<Longrightarrow> v = or_null (field d k)"
  by (cases d) (auto simp: dict_get_def field_def or_null_def split: option.splits)

text \<open>A reply with a record went through every stage of the endpoint.\<close>

lemma analyze_image_enriched:
  assumes "fst (analyze_image env net has_image detection hist) = Enriched out"
  shows "\<exists>lm others wiki_data hist1 wikidata_id wikidata_info hist2 location_details.
           detection = Inr (lm # others)
         \<and> fetch_wiki_data env net (description lm) hist = (wiki_data, hist1)
         \<and> wikidata_id = or_null (field wiki_data ''wikibase_item'')
         \<and> get_wikidata_info env net wikidata_id hist1 = (wikidata_info, hist2)
         \<and> location_details = fst (locate env net (candidates (locations lm)) hist2)
         \<and> build_result env (description lm) wiki_data wikidata_id wikidata_info location_details = Inr out"
  using assms unfolding analyze_image_def
  by (auto split: if_splits sum.splits list.splits prod.splits
        simp: get_wikidata_info_falsy dest!: dict_get_field)

lemma build_result_shape:
  assumes "build_result env name wiki_data wikidata_id wikidata_info location_details = Inr out"
  shows "\<exists>descr significance page.
           merged_description wikidata_info wiki_data = Inr descr
         \<and> out = JObj
             [(''name'', JStr name),
              (''description'', descr),
              (''historical_context'', JObj
                 [(''inception_date'', dget wikidata_info ''inception_date''),
                  (''architectural_styles'', dget wikidata_info ''architectural_styles''),
                  (''significance'', significance)]),
              (''location'', JObj location_details),
              (''official_website'', dget wikidata_info ''official_website''),
              (''references'', JObj
                 [(''wikipedia'', page),
                  (''wikidata'',
                     if truthy wikidata_id
                     then JStr (''https://www.wikidata.org/wiki/'' @ format_value env wikidata_id)
                     else JNull),
                  (''google_maps'', dget location_details ''maps_link'')])]"
proof -
  obtain descr where d: "merged_description wikidata_info wiki_data = Inr descr"
    using assms unfolding build_result_def by (cases "merged_description wikidata_info wiki_data") auto
  obtain significance where s: "dict_get wiki_data ''description'' JNull = Inr significance"
    using assms d unfolding build_result_def by (cases "dict_get wiki_data ''description'' JNull") auto
  obtain page where p: "wikipedia_page wiki_data = Inr page"
    using assms d s unfolding build_result_def by (cases "wikipedia_page wiki_data") auto
  show ?thesis using assms d s p unfolding build_result_def by auto
qed

lemma merged_description_value:
  assumes "merged_description wikidata_info wiki_data = Inr descr"
  shows "descr =
           (if truthy (dget wikidata_info ''description'') then dget wikidata_info ''description''
            else if truthy (or_null (field wiki_data ''extract'')) then or_null (field wiki_data ''extract'')
            else JStr ''No description available'')"
  using assms unfolding merged_description_def
  by (cases wiki_data) (auto simp: dict_get_def field_def or_null_def py_or_def split: if_splits option.splits)

text \<open>
  C1, as amended. The description of the record is the description of the knowledge-graph
  entity when that is a non-empty value, else the extract of the encyclopedia when that is
  a non-empty value, else the sentinel \<open>No description available\<close>. A non-empty
  description of the knowledge graph is used as it is, whatever the extract. An empty
  value counts as no value: that is the truth test of Python's \<^verbatim>\<open>or\<close>.
\<close>

theorem description_precedence:
  assumes "fst (analyze_image env net has_image (Inr (lm # others)) hist) = Enriched out"
    and "fetch_wiki_data env net (description lm) hist = (wiki_data, hist1)"
    and "fst (get_wikidata_info env net (or_null (field wiki_data ''wikibase_item'')) hist1) = wikidata_info"
  shows "path out [''description''] =
           Some (if truthy (dget wikidata_info ''description'') then dget wikidata_info ''description''
                 else if truthy (or_null (field wiki_data ''extract'')) then or_null (field wiki_data ''extract'')
                 else JStr ''No description available'')"
proof -
  from analyze_image_enriched[OF assms(1)] assms(2,3)
  obtain location_details where
    b: "build_result env (description lm) wiki_data (or_null (field wiki_data ''wikibase_item''))
          wikidata_info location_details = Inr out"
    by auto
  from build_result_shape[OF b] obtain descr where
    d: "merged_description wikidata_info wiki_data = Inr descr" and
    o: "path out [''description''] = Some descr"
    by (auto simp: field_def)
  from merged_description_value[OF d] o show ?thesis by simp
qed

text \<open>The Eiffel Tower with every source but the geocoder in service: the description of the knowledge graph wins.\<close>

theorem description_precedence_witness:
  "reply_path (fst (analyze_image sample_runtime eiffel_net True (Inr [eiffel]) [])) [''description'']
     = Some (JStr ''tower on the Champ de Mars'')"
proof -
  obtain out where h1: "fst (analyze_image sample_runtime eiffel_net True (Inr [eiffel]) []) = Enriched out"
    by (simp add: run_defs)
  have h2: "fetch_wiki_data sample_runtime eiffel_net (description eiffel) []
              = (wiki_summary, [wikipedia_request sample_runtime ''Eiffel Tower''])"
    by (simp add: run_defs)
  have h3: "dget (fst (get_wikidata_info sample_runtime eiffel_net (or_null (field wiki_summary ''wikibase_item''))
              [wikipedia_request sample_runtime ''Eiffel Tower''])) ''description'' = JStr ''tower on the Champ de Mars''"
    by (simp add: run_defs)
  from description_precedence[OF h1 h2 refl] h3
  have "path out [''description''] = Some (JStr ''tower on the Champ de Mars'')" by simp
  with h1 show ?thesis by (simp add: reply_path_def)
qed

text \<open>
  C1 as stated fails where the encyclopedia sends an extract that is the empty string and
  no knowledge-graph reference: the extract is present, the precedence of the claim gives
  it, and the record has the sentinel.
\<close>

theorem description_empty_extract_counterexample:
  "reply_path (fst (analyze_image sample_runtime
       (scenario_net (Response 200 (Some wiki_empty_extract)) Failed Failed Failed)
       True (Inr [eiffel_unplaced]) [])) [''description'']
     = Some (JStr ''No description available'')
   \<and> field wiki_empty_extract ''extract'' = Some (JStr [])
   \<and> claimed_description None (field wiki_empty_extract ''extract'') = JStr []"
  by (simp add: run_defs claimed_description_def)

lemma locate_empty: "locate env net [] hist = ([], hist)"
  by (simp add: locate_def)

lemma get_location_details_failed:
  assumes "failed (net hist (geocode_request env lat lon))"
  shows "fst (get_location_details env net lat lon hist) = []"
  using assms
  by (cases "net hist (geocode_request env lat lon)")
     (simp_all add: failed_def get_location_details_def geocode_body_def io_defs)

lemma locate_failed:
  assumes "failed (net hist (geocode_request env (latitude loc) (longitude loc)))"
  shows "fst (locate env net (loc # rest) hist)
           = [(''coordinates'', coordinates loc), (''maps_link'', JStr (maps_link env loc))]"
proof -
  from get_location_details_failed[where net=net and hist=hist, OF assms]
  obtain h where "get_location_details env net (latitude loc) (longitude loc) hist = ([], h)"
    by (cases "get_location_details env net (latitude loc) (longitude loc) hist") auto
  then show ?thesis by (simp add: locate_def dict_merge_def)
qed

text \<open>
  C5, as amended. For every detection whose candidate-location sequence is empty, the
  location of the record is the empty object: the field is there, and holds no
  coordinates, country, city or maps link. \<open>references.google_maps\<close> is null.
\<close>

theorem no_candidate_location:
  assumes "fst (analyze_image env net has_image (Inr (lm # others)) hist) = Enriched out"
    and "candidates (locations lm) = []"
  shows "path out [''location''] = Some (JObj [])
       \<and> path out [''references'', ''google_maps''] = Some JNull"
proof -
  from analyze_image_enriched[OF assms(1)] assms(2)
  obtain wiki_data wikidata_id wikidata_info where
    b: "build_result env (description lm) wiki_data wikidata_id wikidata_info [] = Inr out"
    by (auto simp: locate_empty)
  from build_result_shape[OF b] show ?thesis
    by (auto simp: field_def dget_def)
qed

text \<open>The Eiffel Tower detected without a coordinate.\<close>

theorem no_candidate_location_witness:
  "candidates (locations eiffel_unplaced) = []
   \<and> reply_path (fst (analyze_image sample_runtime eiffel_net True (Inr [eiffel_unplaced]) [])) [''location'']
       = Some (JObj [])
   \<and> reply_path (fst (analyze_image sample_runtime eiffel_net True (Inr [eiffel_unplaced]) []))
       [''references'', ''google_maps''] = Some JNull"
proof -
  obtain out where h1: "fst (analyze_image sample_runtime eiffel_net True (Inr [eiffel_unplaced]) []) = Enriched out"
    by (simp add: run_defs)
  have h2: "candidates (locations eiffel_unplaced) = []"
    by (simp add: eiffel_unplaced_def)
  from no_candidate_location[OF h1 h2] h1 h2 show ?thesis
    by (simp add: reply_path_def)
qed

text \<open>
  C5 as stated fails on the location: with no candidate coordinate the record still has the
  field \<open>location\<close>, and its value is an object, not null.
\<close>

theorem location_not_absent_counterexample:
  "candidates (locations eiffel_unplaced) = []
   \<and> \<not> absent (reply_path (fst (analyze_image sample_runtime eiffel_net True (Inr [eiffel_unplaced]) []))
          [''location''])"
  by (simp add: run_defs)

text \<open>
  C6. For every detection with at least one candidate coordinate, when the reverse-geocoding
  call fails (the request raises, or the status is not 200, as with 503), the location of
  the record has the coordinates of the first candidate and the maps link
  \<open>https://maps.google.com/?q={lat},{lon}\<close> made from them alone, and has no country
  and no city.
\<close>

theorem geocoding_failure_keeps_coordinates:
  assumes "fst (analyze_image env net has_image (Inr (lm # others)) hist) = Enriched out"
    and "candidates (locations lm) = loc # rest"
    and "\<And>h. failed (net h (geocode_request env (latitude loc) (longitude loc)))"
  shows "path out [''location''] =
           Some (JObj
             [(''coordinates'', JObj [(''latitude'', JFloat (latitude loc)), (''longitude'', JFloat (longitude loc))]),
              (''maps_link'', JStr (''https://maps.google.com/?q='' @ str_float env (latitude loc)
                                      @ '','' @ str_float env (longitude loc)))])
       \<and> path out [''location'', ''coordinates''] =
           Some (JObj [(''latitude'', JFloat (latitude loc)), (''longitude'', JFloat (longitude loc))])
       \<and> path out [''location'', ''maps_link''] =
           Some (JStr (''https://maps.google.com/?q='' @ str_float env (latitude loc)
                         @ '','' @ str_float env (longitude loc)))
       \<and> path out [''location'', ''country''] = None
       \<and> path out [''location'', ''city''] = None"
proof -
  from analyze_image_enriched[OF assms(1)] assms(2)
  obtain wiki_data wikidata_id wikidata_info hist2 where
    b: "build_result env (description lm) wiki_data wikidata_id wikidata_info
          (fst (locate env net (loc # rest) hist2)) = Inr out"
    by auto
  have l: "fst (locate env net (loc # rest) hist2)
             = [(''coordinates'', coordinates loc), (''maps_link'', JStr (maps_link env loc))]"
    using locate_failed[where net=net and hist=hist2, OF assms(3)] .
  from build_result_shape[OF b] show ?thesis
    unfolding l by (auto simp: field_def coordinates_def maps_link_def)
qed

text \<open>The Eiffel Tower at 48.8584, 2.2945 while the geocoder answers 503.\<close>

theorem geocoding_failure_keeps_coordinates_witness:
  "reply_path (fst (analyze_image sample_runtime eiffel_net True (Inr [eiffel]) [])) [''location''] =
     Some (JObj
       [(''coordinates'', JObj [(''latitude'', JFloat 48.8584), (''longitude'', JFloat 2.2945)]),
        (''maps_link'', JStr ''https://maps.google.com/?q=48.8584,2.2945'')])"
proof -
  obtain out where h1: "fst (analyze_image sample_runtime eiffel_net True (Inr [eiffel]) []) = Enriched out"
    by (simp add: run_defs)
  have h2: "candidates (locations eiffel) = \<lparr>latitude = 48.8584, longitude = 2.2945\<rparr> # []"
    by (simp add: eiffel_def)
  have h3: "\<And>h. failed (eiffel_net h (geocode_request sample_runtime
              (latitude \<lparr>latitude = 48.8584, longitude = 2.2945\<rparr>)
              (longitude \<lparr>latitude = 48.8584, longitude = 2.2945\<rparr>)))"
    by (simp add: failed_def eiffel_net_def scenario_net_def geocode_request_def)
  from geocoding_failure_keeps_coordinates[OF h1 h2 h3] h1 show ?thesis
    by (simp add: reply_path_def sample_runtime_def sample_str_float_def)
qed

lemma fetch_wiki_data_failed:
  assumes "failed (net hist (wikipedia_request env name))"
  shows "fetch_wiki_data env net name hist = (JObj [], hist @ [wikipedia_request env name])"
  using assms
  by (cases "net hist (wikipedia_request env name)")
     (simp_all add: failed_def fetch_wiki_data_def io_defs)

lemma build_result_unknown:
  "build_result env name (JObj []) JNull [] location_details =
     Inr (JObj
       [(''name'', JStr name),
        (''description'', JStr ''No description available''),
        (''historical_context'', JObj
           [(''inception_date'', JNull), (''architectural_styles'', JNull), (''significance'', JNull)]),
        (''location'', JObj location_details),
        (''official_website'', JNull),
        (''references'', JObj
           [(''wikipedia'', JNull), (''wikidata'', JNull),
            (''google_maps'', dget location_details ''maps_link'')])])"
  by (simp add: build_result_def merged_description_def wikipedia_page_def dget_def dict_get_def py_or_def)

text \<open>
  C8. For every enrichment request in which the call to the encyclopedia times out, raises
  or returns a status other than 200, the summary is the empty one, with every field
  unknown, no fault leaves the endpoint, and the record has a description: the sentinel
  \<open>No description available\<close>, since without a summary there is no reference to
  the knowledge graph either.
\<close>

theorem encyclopedia_failure_degrades:
  assumes "failed (net hist (wikipedia_request env (description lm)))"
  shows "fst (fetch_wiki_data env net (description lm) hist) = JObj []
       \<and> reply_path (fst (analyze_image env net True (Inr (lm # others)) hist)) [''description'']
           = Some (JStr ''No description available'')"
proof -
  have f: "fetch_wiki_data env net (description lm) hist
             = (JObj [], hist @ [wikipedia_request env (description lm)])"
    using fetch_wiki_data_failed[where net=net and hist=hist, OF assms] .
  obtain location_details hist3 where
    l: "locate env net (candidates (locations lm)) (hist @ [wikipedia_request env (description lm)])
          = (location_details, hist3)"
    by (cases "locate env net (candidates (locations lm)) (hist @ [wikipedia_request env (description lm)])")
  have "fst (analyze_image env net True (Inr (lm # others)) hist)
          = Enriched (JObj
       [(''name'', JStr (description lm)),
        (''description'', JStr ''No description available''),
        (''historical_context'', JObj
           [(''inception_date'', JNull), (''architectural_styles'', JNull), (''significance'', JNull)]),
        (''location'', JObj location_details),
        (''official_website'', JNull),
        (''references'', JObj
           [(''wikipedia'', JNull), (''wikidata'', JNull),
            (''google_maps'', dget location_details ''maps_link'')])])"
    by (simp add: analyze_image_def f l build_result_unknown dict_get_def)
  then show ?thesis using f by (simp add: reply_path_def field_def)
qed

text \<open>The encyclopedia answers 503.\<close>

theorem encyclopedia_failure_degrades_witness:
  "failed (Response 503 None)
   \<and> fst (fetch_wiki_data sample_runtime
        (scenario_net (Response 503 None) Failed Failed Failed) (description eiffel) []) = JObj []
   \<and> reply_path (fst (analyze_image sample_runtime
        (scenario_net (Response 503 None) Failed Failed Failed) True (Inr [eiffel]) [])) [''description'']
       = Some (JStr ''No description available'')"
proof -
  have h: "failed (scenario_net (Response 503 None) Failed Failed Failed []
             (wikipedia_request sample_runtime (description eiffel)))"
    by (simp add: failed_def scenario_net_def wikipedia_request_def)
  from encyclopedia_failure_degrades[where net="scenario_net (Response 503 None) Failed Failed Failed"
         and hist="[]" and others="[]", OF h]
  show ?thesis by (simp add: failed_def)
qed

text \<open>
  C10, as amended. \<open>references.wikidata\<close> is there exactly when the summary of the
  encyclopedia carries a non-empty \<open>wikibase_item\<close> (a value Python's truth test
  accepts): then it is \<open>https://www.wikidata.org/wiki/\<close> followed by the identifier.
  Otherwise, also when \<open>wikibase_item\<close> is there as the empty string, it is null. The
  network is arbitrary, so the outcome of the fetch of the entity has no part in it.
\<close>

theorem wikidata_reference:
  assumes "fst (analyze_image env net has_image (Inr (lm # others)) hist) = Enriched out"
    and "fst (fetch_wiki_data env net (description lm) hist) = wiki_data"
  shows "path out [''references'', ''wikidata''] =
           Some (if truthy (or_null (field wiki_data ''wikibase_item''))
                 then JStr (''https://www.wikidata.org/wiki/''
                              @ format_value env (or_null (field wiki_data ''wikibase_item'')))
                 else JNull)
       \<and> (absent (path out [''references'', ''wikidata''])
            \<longleftrightarrow> \<not> truthy (or_null (field wiki_data ''wikibase_item'')))
       \<and> (\<forall>c cs. field wiki_data ''wikibase_item'' = Some (JStr (c # cs)) \<longrightarrow>
             path out [''references'', ''wikidata''] = Some (JStr (''https://www.wikidata.org/wiki/'' @ c # cs)))
       \<and> (absent (field wiki_data ''wikibase_item'') \<longrightarrow>
             path out [''references'', ''wikidata''] = Some JNull)"
proof -
  from analyze_image_enriched[OF assms(1)] assms(2)
  obtain wikidata_info location_details where
    b: "build_result env (description lm) wiki_data (or_null (field wiki_data ''wikibase_item''))
          wikidata_info location_details = Inr out"
    by auto
  from build_result_shape[OF b]
  have "path out [''references'', ''wikidata''] =
           Some (if truthy (or_null (field wiki_data ''wikibase_item''))
                 then JStr (''https://www.wikidata.org/wiki/''
                              @ format_value env (or_null (field wiki_data ''wikibase_item'')))
                 else JNull)"
    by (auto simp: field_def)
  then show ?thesis
    by (auto simp: or_null_def absent_def format_value_def)
qed

text \<open>The summary refers to Q243 and the knowledge graph answers 503: the reference is kept.\<close>

theorem wikidata_reference_witness:
  "reply_path (fst (analyze_image sample_runtime
      (scenario_net (Response 200 (Some wiki_summary)) (Response 503 None) Failed Failed)
      True (Inr [eiffel]) [])) [''references'', ''wikidata'']
     = Some (JStr ''https://www.wikidata.org/wiki/Q243'')
   \<and> field wiki_summary ''wikibase_item'' = Some (JStr ''Q243'')"
proof -
  let ?net = "scenario_net (Response 200 (Some wiki_summary)) (Response 503 None) Failed Failed"
  obtain out where h1: "fst (analyze_image sample_runtime ?net True (Inr [eiffel]) []) = Enriched out"
    by (simp add: run_defs)
  have h2: "fst (fetch_wiki_data sample_runtime ?net (description eiffel) []) = wiki_summary"
    by (simp add: run_defs)
  have h3: "field wiki_summary ''wikibase_item'' = Some (JStr ''Q243'')"
    by (simp add: wiki_summary_def field_def)
  from wikidata_reference[OF h1 h2] h3
  have "path out [''references'', ''wikidata''] = Some (JStr ''https://www.wikidata.org/wiki/Q243'')"
    by (simp add: or_null_def format_value_def)
  with h1 h3 show ?thesis by (simp add: reply_path_def)
qed

text \<open>
  C10 as stated fails where the summary carries \<open>wikibase_item\<close> as the empty string: the
  field is there, neither missing nor null, and \<open>references.wikidata\<close> is null.
\<close>

theorem empty_reference_counterexample:
  "field wiki_empty_reference ''wikibase_item'' = Some (JStr [])
   \<and> \<not> absent (field wiki_empty_reference ''wikibase_item'')
   \<and> reply_path (fst (analyze_image sample_runtime
        (scenario_net (Response 200 (Some wiki_empty_reference)) Failed Failed Failed)
        True (Inr [eiffel_unplaced]) [])) [''references'', ''wikidata''] = Some JNull"
  by (simp add: wiki_empty_reference_def run_defs)

section \<open>Properties of claim projection\<close>

lemma path_field:
  "path v (k # ks) = Some w \<Longrightarrow> \<exists>kvs u. v = JObj kvs \<and> map_of kvs k = Some u \<and> path u ks = Some w"
  by (cases v) (auto simp: field_def split: option.splits)

lemma claim_value_body_time:
  assumes "path c [''mainsnak'', ''datavalue'', ''value'', ''time''] = Some (JStr t)"
  shows "claim_value_body (JArr (c # cs)) False
           = Inr (JStr (takeWhile (\<lambda>x. x \<noteq> CHR ''T'') (dropWhile (\<lambda>x. x = CHR ''+'') t)))"
proof -
  from path_field[OF assms] obtain kc snak where
    c: "c = JObj kc" "map_of kc ''mainsnak'' = Some snak"
       "path snak [''datavalue'', ''value'', ''time''] = Some (JStr t)" by blast
  from path_field[OF c(3)] obtain ks dv where
    s: "snak = JObj ks" "map_of ks ''datavalue'' = Some dv"
       "path dv [''value'', ''time''] = Some (JStr t)" by blast
  from path_field[OF s(3)] obtain kd v where
    d: "dv = JObj kd" "map_of kd ''value'' = Some v" "path v [''time''] = Some (JStr t)" by blast
  from path_field[OF d(3)] obtain kv where
    v: "v = JObj kv" "map_of kv ''time'' = Some (JStr t)" by auto
  show ?thesis
    by (simp add: claim_value_body_def dict_get_def c s d v time_date_def lstrip_def split_first_def)
qed

text \<open>
  C4, as amended. For every date-valued claim (the first claim of the property carries a
  value with a string \<open>time\<close>), the projection strips the leading \<open>+\<close> characters
  and drops everything from the first \<open>T\<close> on. So \<open>+<date>T<time>\<close> gives
  \<open><date>\<close>, and \<open>+1889-03-31T00:00:00Z\<close> gives \<open>1889-03-31\<close>; a leading \<open>-\<close>,
  the sign of a year before the common era, is kept.
\<close>

theorem date_projection:
  assumes "path c [''mainsnak'', ''datavalue'', ''value'', ''time''] = Some (JStr t)"
  shows "extract_claim_value (JArr (c # cs)) False
           = JStr (takeWhile (\<lambda>x. x \<noteq> CHR ''T'') (dropWhile (\<lambda>x. x = CHR ''+'') t))
       \<and> (\<forall>date rest. t = CHR ''+'' # date @ CHR ''T'' # rest \<and> CHR ''T'' \<notin> set date
              \<and> CHR ''+'' \<notin> set (take 1 date)
            \<longrightarrow> extract_claim_value (JArr (c # cs)) False = JStr date)
       \<and> (\<forall>date rest. t = CHR ''-'' # date @ CHR ''T'' # rest \<and> CHR ''T'' \<notin> set date
            \<longrightarrow> extract_claim_value (JArr (c # cs)) False = JStr (CHR ''-'' # date))"
proof -
  have e: "extract_claim_value (JArr (c # cs)) False
           = JStr (takeWhile (\<lambda>x. x \<noteq> CHR ''T'') (dropWhile (\<lambda>x. x = CHR ''+'') t))"
    by (simp add: extract_claim_value_def claim_value_body_time[OF assms])
  have p: "takeWhile (\<lambda>x. x \<noteq> CHR ''T'') (dropWhile (\<lambda>x. x = CHR ''+'') (CHR ''+'' # date @ CHR ''T'' # rest)) = date"
    if "CHR ''T'' \<notin> set date" "CHR ''+'' \<notin> set (take 1 date)" for date rest
    using that by (cases date) (auto simp: takeWhile_append1 takeWhile_tail)
  have m: "takeWhile (\<lambda>x. x \<noteq> CHR ''T'') (dropWhile (\<lambda>x. x = CHR ''+'') (CHR ''-'' # date @ CHR ''T'' # rest)) = CHR ''-'' # date"
    if "CHR ''T'' \<notin> set date" for date rest
    using that by (auto simp: takeWhile_tail)
  show ?thesis using e p m by auto
qed

text \<open>The example of the specification.\<close>

theorem date_projection_witness:
  "path (time_claim ''+1889-03-31T00:00:00Z'') [''mainsnak'', ''datavalue'', ''value'', ''time'']
     = Some (JStr ''+1889-03-31T00:00:00Z'')
   \<and> extract_claim_value (JArr [time_claim ''+1889-03-31T00:00:00Z'']) False = JStr ''1889-03-31''"
proof -
  have h: "path (time_claim ''+1889-03-31T00:00:00Z'') [''mainsnak'', ''datavalue'', ''value'', ''time'']
     = Some (JStr ''+1889-03-31T00:00:00Z'')"
    by (simp add: time_claim_def claim_of_def field_def)
  from date_projection[where cs="[]", OF h] h show ?thesis by simp
qed

text \<open>
  C4 as stated fails on a date before the common era: its sign character \<open>-\<close> is not
  stripped.
\<close>

theorem date_minus_sign_counterexample:
  "extract_claim_value (JArr [time_claim ''-0044-03-15T00:00:00Z'']) False = JStr ''-0044-03-15''
   \<and> claimed_date ''-0044-03-15T00:00:00Z'' = ''0044-03-15''"
  by (simp add: run_defs claimed_date_def)

section \<open>Properties of label resolution\<close>

lemma ebind_Inr:
  "ebind m f = Inr y \<longleftrightarrow> (\<exists>x. m = Inr x \<and> f x = Inr y)"
  by (cases m) auto

lemma map_res_Inr:
  "map_res f xs = Inr ys \<Longrightarrow> length ys = length xs \<and> (\<forall>i<length xs. f (xs ! i) = Inr (ys ! i))"
proof (induction xs arbitrary: ys)
  case Nil
  then show ?case by simp
next
  case (Cons x xs)
  from Cons.prems obtain y ys' where
    y: "f x = Inr y" and ys': "map_res f xs = Inr ys'" and ys: "ys = y # ys'"
    by (auto simp: ebind_Inr)
  from Cons.IH[OF ys'] y ys show ?case
    by (auto simp: nth_Cons split: nat.splits)
qed

lemma join_ids_strings:
  assumes "join_ids ids = Inr joined"
  shows "\<exists>ss. ids = map JStr ss \<and> joined = join ''|'' ss"
proof -
  from assms obtain ss where m: "map_res str_item ids = Inr ss" and j: "joined = join ''|'' ss"
    by (auto simp: join_ids_def ebind_Inr)
  from map_res_Inr[OF m] have l: "length ss = length ids"
    and e: "\<forall>i<length ids. str_item (ids ! i) = Inr (ss ! i)" by auto
  have "ids = map JStr ss"
  proof (rule nth_equalityI)
    show "length ids = length (map JStr ss)" using l by simp
  next
    fix i assume "i < length ids"
    with e have "str_item (ids ! i) = Inr (ss ! i)" by simp
    then have "ids ! i = JStr (ss ! i)"
      by (cases "ids ! i") (auto simp: str_item_def)
    with \<open>i < length ids\<close> l show "ids ! i = map JStr ss ! i" by simp
  qed
  with j show ?thesis by blast
qed

lemma labels_body_request:
  assumes "join_ids ids = Inr joined"
  shows "snd (labels_body net ids hist) = hist @ [label_request joined]"
  using assms
  by (cases "net hist (label_request joined)")
     (auto simp: labels_body_def io_defs split: option.splits sum.splits)

lemma labels_body_resolved:
  assumes "join_ids ids = Inr joined"
    and "net hist (label_request joined) = Response 200 (Some j)"
    and "response_labels j = Inr labels"
  shows "labels_body net ids hist = (Inr (map (lookup_label labels) ids), hist @ [label_request joined])"
  using assms by (simp add: labels_body_def io_defs)

lemma labels_body_frame:
  assumes "join_ids ids = Inr joined"
    and "net' hist' (label_request joined) = net hist (label_request joined)"
  shows "fst (labels_body net' ids hist') = fst (labels_body net ids hist)"
  using assms
  by (cases "net hist (label_request joined)")
     (auto simp: labels_body_def io_defs split: option.splits sum.splits)

lemma extract_entity_labels_body:
  assumes "referenced_ids claims = Inr raw" and "list_all hashable raw"
    and "enumerates env raw"
    and "filter truthy (set_order env raw) = ids" and "ids \<noteq> []"
  shows "extract_entity_labels env net claims hist =
           (case labels_body net ids hist of
              (Inl e, hist') \<Rightarrow> (Inr [], hist')
            | (Inr ls, hist') \<Rightarrow> (Inr ls, hist'))"
proof -
  have "truthy claims"
  proof (rule ccontr)
    assume "\<not> truthy claims"
    with assms(1) have "raw = []"
      by (cases claims) (auto simp: referenced_ids_def)
    with assms(3,4,5) show False by (auto simp: enumerates_def)
  qed
  then show ?thesis using assms
    by (simp add: extract_entity_labels_def py_set_def)
qed

lemma extract_entity_labels_none:
  assumes "referenced_ids claims = Inr raw" and "list_all hashable raw"
    and "filter truthy (set_order env raw) = []"
  shows "extract_entity_labels env net claims hist = (Inr [], hist)"
  using assms by (simp add: extract_entity_labels_def py_set_def)

lemma entity_label_default:
  assumes "entity_label data q = Inr v" and "english_label data = None"
  shows "v = JStr q"
  using assms
  by (auto simp: entity_label_def english_label_def dict_get_def field_def ebind_Inr
           split: json.splits option.splits)

lemma build_labels_unlabelled:
  assumes "build_labels items m = Inr labels"
    and "\<forall>data. (q, data) \<in> set items \<longrightarrow> english_label data = None"
    and "m q = None \<or> m q = Some (JStr q)"
  shows "labels q = None \<or> labels q = Some (JStr q)"
  using assms
proof (induction items arbitrary: m)
  case Nil
  then show ?case by simp
next
  case (Cons item items)
  obtain k data where item: "item = (k, data)" by (cases item)
  from Cons.prems(1) item obtain v where
    v: "entity_label data k = Inr v" and r: "build_labels items (m(k \<mapsto> v)) = Inr labels"
    by (auto simp: ebind_Inr)
  have "(m(k \<mapsto> v)) q = None \<or> (m(k \<mapsto> v)) q = Some (JStr q)"
  proof (cases "k = q")
    case True
    with Cons.prems(2) item have "english_label data = None" by auto
    from entity_label_default[OF v this] True show ?thesis by simp
  next
    case False
    with Cons.prems(3) show ?thesis by simp
  qed
  moreover have "\<forall>data. (q, data) \<in> set items \<longrightarrow> english_label data = None"
    using Cons.prems(2) by auto
  ultimately show ?case using Cons.IH[OF r] by blast
qed

lemma response_labels_unlabelled:
  assumes "response_labels j = Inr labels"
    and "\<forall>data. (q, data) \<in> set (response_entities j) \<longrightarrow> english_label data = None"
  shows "lookup_label labels (JStr q) = JStr q"
proof -
  from assms(1) obtain ents items where
    e: "dict_get j ''entities'' (JObj []) = Inr ents" and i: "dict_items ents = Inr items"
    and b: "build_labels items Map.empty = Inr labels"
    by (auto simp: response_labels_def ebind_Inr)
  from i have ents: "ents = JObj items" by (cases ents) (auto simp: dict_items_def)
  have "set items \<subseteq> set (response_entities j)"
    using e ents
    by (cases j) (auto simp: dict_get_def response_entities_def field_def split: option.splits)
  with assms(2) have "\<forall>data. (q, data) \<in> set items \<longrightarrow> english_label data = None" by blast
  from build_labels_unlabelled[OF b this] have "labels q = None \<or> labels q = Some (JStr q)" by simp
  then show ?thesis by (auto simp: lookup_label_def)
qed

lemma extract_entity_labels_request:
  assumes "referenced_ids claims = Inr raw" and "list_all hashable raw" and "enumerates env raw"
    and "filter truthy (set_order env raw) = ids" and "ids \<noteq> []" and "join_ids ids = Inr joined"
  shows "snd (extract_entity_labels env net claims hist) = hist @ [label_request joined]"
proof -
  from labels_body_request[OF assms(6)]
  have "snd (labels_body net ids hist) = hist @ [label_request joined]" .
  then show ?thesis
    unfolding extract_entity_labels_body[OF assms(1-5)]
    by (cases "labels_body net ids hist") (auto split: sum.splits)
qed

lemma extract_entity_labels_frame:
  assumes "referenced_ids claims = Inr raw" and "list_all hashable raw" and "enumerates env raw"
    and "filter truthy (set_order env raw) = ids" and "ids \<noteq> []" and "join_ids ids = Inr joined"
    and "net' hist' (label_request joined) = net hist (label_request joined)"
  shows "fst (extract_entity_labels env net' claims hist') = fst (extract_entity_labels env net claims hist)"
proof -
  from labels_body_frame[where net=net and hist=hist and net'=net' and hist'=hist', OF assms(6,7)]
  have "fst (labels_body net' ids hist') = fst (labels_body net ids hist)" .
  then show ?thesis
    unfolding extract_entity_labels_body[OF assms(1-5)]
    by (cases "labels_body net ids hist"; cases "labels_body net' ids hist'") (auto split: sum.splits)
qed

lemma extract_entity_labels_resolved:
  assumes "referenced_ids claims = Inr raw" and "list_all hashable raw" and "enumerates env raw"
    and "filter truthy (set_order env raw) = ids" and "ids \<noteq> []" and "join_ids ids = Inr joined"
    and "net hist (label_request joined) = Response 200 (Some j)"
    and "response_labels j = Inr labels"
  shows "fst (extract_entity_labels env net claims hist) = Inr (map (lookup_label labels) ids)"
  unfolding extract_entity_labels_body[OF assms(1-5)]
  by (simp add: labels_body_resolved[where net=net and hist=hist, OF assms(6,7,8)])

lemma extract_entity_labels_failed:
  assumes "referenced_ids claims = Inr raw" and "list_all hashable raw" and "enumerates env raw"
    and "filter truthy (set_order env raw) = ids" and "ids \<noteq> []" and "join_ids ids = Inr joined"
    and "failed (net hist (label_request joined))"
  shows "fst (extract_entity_labels env net claims hist) = Inr []"
proof -
  have "fst (labels_body net ids hist) = Inr [] \<or> (\<exists>e. fst (labels_body net ids hist) = Inl e)"
    using assms(6,7)
    by (cases "net hist (label_request joined)") (auto simp: labels_body_def io_defs failed_def)
  then show ?thesis
    unfolding extract_entity_labels_body[OF assms(1-5)]
    by (cases "labels_body net ids hist") (auto split: sum.splits)
qed

lemma sends_pure: "sends_at_most n (io_pure r)"
  by (simp add: sends_at_most_def io_pure_def)

lemma sends_if:
  "sends_at_most n a \<Longrightarrow> sends_at_most n b \<Longrightarrow> sends_at_most n (if c then a else b)"
  by simp

lemma sends_bind_pure:
  "(\<And>x. sends_at_most n (f x)) \<Longrightarrow> sends_at_most n (io_bind (io_pure r) f)"
  by (cases r) (auto simp: sends_at_most_def io_bind_def io_pure_def)

lemma sends_bind:
  assumes "sends_at_most 1 m" and "\<And>x. sends_at_most n (f x)"
  shows "sends_at_most (Suc n) (io_bind m f)"
  unfolding sends_at_most_def
proof
  fix hist
  from assms(1) obtain r1 where r1: "snd (m hist) = hist @ r1" "length r1 \<le> 1"
    by (auto simp: sends_at_most_def)
  obtain res h1 where m: "m hist = (res, h1)" by (cases "m hist")
  with r1 have h1: "h1 = hist @ r1" by simp
  show "\<exists>reqs. snd (io_bind m f hist) = hist @ reqs \<and> length reqs \<le> Suc n"
  proof (cases res)
    case (Inl e)
    with m h1 r1 show ?thesis by (auto simp: io_bind_def)
  next
    case (Inr x)
    from assms(2)[of x] obtain r2 where "snd (f x h1) = h1 @ r2" "length r2 \<le> n"
      by (auto simp: sends_at_most_def)
    with Inr m h1 r1 have "snd (io_bind m f hist) = hist @ (r1 @ r2)" "length (r1 @ r2) \<le> Suc n"
      by (auto simp: io_bind_def)
    then show ?thesis by blast
  qed
qed

lemma sends_http_get: "sends_at_most 1 (http_get net req)"
  by (auto simp: sends_at_most_def http_get_def split: http_result.splits)

lemma sends_labels_body: "sends_at_most 1 (labels_body net ids)"
  unfolding labels_body_def One_nat_def
  by (intro sends_bind_pure sends_bind[unfolded One_nat_def] sends_http_get[unfolded One_nat_def] sends_if sends_pure)

lemma sends_extract_entity_labels: "sends_at_most 1 (extract_entity_labels env net claims)"
  unfolding sends_at_most_def
proof
  fix hist :: "request list"
  have e: "\<exists>reqs. hist = hist @ reqs \<and> length reqs \<le> 1" by simp
  from sends_labels_body[of net] have
    l: "\<And>ids. \<exists>reqs. snd (labels_body net ids hist) = hist @ reqs \<and> length reqs \<le> 1"
    by (auto simp: sends_at_most_def)
  show "\<exists>reqs. snd (extract_entity_labels env net claims hist) = hist @ reqs \<and> length reqs \<le> 1"
    using e l[of "filter truthy (set_order env (projr (referenced_ids claims)))"]
    by (auto simp: extract_entity_labels_def py_set_def Let_def split: sum.splits prod.splits)
qed

lemma sends_wikidata_body: "sends_at_most (Suc (Suc (Suc 0))) (wikidata_body env net wikidata_id)"
  unfolding wikidata_body_def
  by (intro sends_bind_pure sends_bind sends_http_get sends_extract_entity_labels sends_if sends_pure)

lemma get_wikidata_info_requests:
  "\<exists>reqs. snd (get_wikidata_info env net wikidata_id hist) = hist @ reqs \<and> length reqs \<le> 3"
proof (cases "truthy wikidata_id")
  case False
  then show ?thesis by (simp add: get_wikidata_info_def)
next
  case True
  from sends_wikidata_body[of env net wikidata_id]
  have "\<exists>reqs. snd (wikidata_body env net wikidata_id hist) = hist @ reqs \<and> length reqs \<le> Suc (Suc (Suc 0))"
    unfolding sends_at_most_def by (rule spec)
  then obtain reqs where "snd (wikidata_body env net wikidata_id hist) = hist @ reqs" "length reqs \<le> 3"
    by (auto simp: numeral_3_eq_3)
  with True show ?thesis
    by (cases "wikidata_body env net wikidata_id hist") (auto simp: get_wikidata_info_def split: sum.splits)
qed

lemma string_ids:
  assumes "\<forall>x\<in>set raw. x = JNull \<or> (\<exists>s. x = JStr s)"
  shows "list_all hashable raw"
  using assms by (induction raw) auto

lemma is_obj_iff: "is_obj v \<longleftrightarrow> (\<exists>kvs. v = JObj kvs)"
  by (cases v) auto

lemma dict_get_obj:
  "dict_get d k dflt = (if is_obj d then Inr (case field d k of Some v \<Rightarrow> v | None \<Rightarrow> dflt) else Inl AttributeError)"
  by (cases d) (auto simp: dict_get_def field_def)

lemma entity_label_readable:
  assumes "entity_readable data"
  shows "entity_label data q = Inr (label_value data q)"
  using assms
  by (auto simp: entity_readable_def entity_label_def label_value_def english_label_def
        dict_get_obj field_def split: option.splits)

lemma entity_label_unreadable:
  assumes "\<not> entity_readable data"
  shows "\<exists>e. entity_label data q = Inl e"
  using assms
  by (auto simp: entity_readable_def entity_label_def dict_get_obj field_def split: option.splits)

lemma build_labels_readable:
  assumes "list_all (\<lambda>kv. entity_readable (snd kv)) items" and "distinct (map fst items)"
  shows "build_labels items m =
           Inr (\<lambda>q. case map_of items q of None \<Rightarrow> m q | Some data \<Rightarrow> Some (label_value data q))"
  using assms
proof (induction items arbitrary: m)
  case Nil
  then show ?case by simp
next
  case (Cons item items)
  obtain k data where item: "item = (k, data)" by (cases item)
  from Cons.prems item have r: "entity_readable data"
    and rs: "list_all (\<lambda>kv. entity_readable (snd kv)) items"
    and k: "map_of items k = None" and d: "distinct (map fst items)"
    by (auto simp: map_of_eq_None_iff)
  have "build_labels (item # items) m = build_labels items (m(k \<mapsto> label_value data k))"
    by (simp add: item entity_label_readable[OF r])
  also have "\<dots> = Inr (\<lambda>q. case map_of items q of
                            None \<Rightarrow> (m(k \<mapsto> label_value data k)) q
                          | Some data' \<Rightarrow> Some (label_value data' q))"
    by (rule Cons.IH[OF rs d])
  also have "(\<lambda>q. case map_of items q of
                     None \<Rightarrow> (m(k \<mapsto> label_value data k)) q
                   | Some data' \<Rightarrow> Some (label_value data' q))
             = (\<lambda>q. case map_of (item # items) q of None \<Rightarrow> m q | Some data' \<Rightarrow> Some (label_value data' q))"
    using k by (auto simp: fun_eq_iff item split: option.splits)
  finally show ?case .
qed

lemma build_labels_some:
  assumes "list_all (\<lambda>kv. entity_readable (snd kv)) items"
  shows "\<exists>labels. build_labels items m = Inr labels"
  using assms
proof (induction items arbitrary: m)
  case Nil
  then show ?case by simp
next
  case (Cons item items)
  obtain k data where item: "item = (k, data)" by (cases item)
  from Cons.prems item have r: "entity_readable data"
    and rs: "list_all (\<lambda>kv. entity_readable (snd kv)) items" by auto
  from Cons.IH[OF rs] show ?case
    by (simp add: item entity_label_readable[OF r])
qed

lemma build_labels_unreadable:
  assumes "\<not> list_all (\<lambda>kv. entity_readable (snd kv)) items"
  shows "\<exists>e. build_labels items m = Inl e"
  using assms
proof (induction items arbitrary: m)
  case Nil
  then show ?case by simp
next
  case (Cons item items)
  obtain k data where item: "item = (k, data)" by (cases item)
  show ?case
  proof (cases "entity_readable data")
    case False
    from entity_label_unreadable[OF False, of k] show ?thesis
      by (auto simp: item)
  next
    case True
    with Cons.prems item have "\<not> list_all (\<lambda>kv. entity_readable (snd kv)) items" by simp
    from Cons.IH[OF this] show ?thesis
      by (simp add: item entity_label_readable[OF True])
  qed
qed

lemma response_labels_eq:
  "response_labels j =
     (if is_obj j \<and> (case field j ''entities'' of None \<Rightarrow> True | Some ents \<Rightarrow> is_obj ents)
      then build_labels (response_entities j) Map.empty
      else Inl AttributeError)"
  by (cases j)
     (auto simp: response_labels_def dict_get_def dict_items_def response_entities_def field_def
           is_obj_iff split: option.splits json.splits)

lemma response_labels_unreadable:
  assumes "\<not> label_response_ok j"
  shows "\<exists>e. response_labels j = Inl e"
proof (cases "is_obj j \<and> (case field j ''entities'' of None \<Rightarrow> True | Some ents \<Rightarrow> is_obj ents)")
  case False
  then have "response_labels j = Inl AttributeError"
    unfolding response_labels_eq by (rule if_not_P)
  then show ?thesis by blast
next
  case True
  with assms have "\<not> list_all (\<lambda>kv. entity_readable (snd kv)) (response_entities j)"
    by (auto simp: label_response_ok_def response_entities_def split: option.splits)
  from build_labels_unreadable[OF this] True show ?thesis
    by (simp add: response_labels_eq)
qed

lemma label_response_ok_items:
  assumes "label_response_ok j"
  shows "response_labels j = build_labels (response_entities j) Map.empty
       \<and> list_all (\<lambda>kv. entity_readable (snd kv)) (response_entities j)"
  using assms
  by (auto simp: response_labels_eq label_response_ok_def response_entities_def split: option.splits)

lemma response_labels_some:
  assumes "label_response_ok j"
  shows "\<exists>labels. response_labels j = Inr labels"
  using label_response_ok_items[OF assms] build_labels_some[of "response_entities j" Map.empty]
  by auto

lemma response_labels_resolved:
  assumes "label_response_ok j" and "distinct (map fst (response_entities j))"
    and "response_labels j = Inr labels"
  shows "lookup_label labels eid = resolved_label j eid"
proof -
  from label_response_ok_items[OF assms(1)]
  have e: "response_labels j = build_labels (response_entities j) Map.empty"
    and r: "list_all (\<lambda>kv. entity_readable (snd kv)) (response_entities j)" by auto
  from build_labels_readable[OF r assms(2), of Map.empty] e assms(3)
  have "labels = (\<lambda>q. case map_of (response_entities j) q of
                        None \<Rightarrow> None | Some data \<Rightarrow> Some (label_value data q))"
    by simp
  then show ?thesis
    by (simp add: lookup_label_def resolved_label_def split: json.splits option.splits)
qed

lemma extract_entity_labels_unread:
  assumes "referenced_ids claims = Inr raw" and "list_all hashable raw" and "enumerates env raw"
    and "filter truthy (set_order env raw) = ids" and "ids \<noteq> []" and "join_ids ids = Inr joined"
    and "net hist (label_request joined) = Response st b"
    and "b = None \<or> (\<exists>j. b = Some j \<and> \<not> label_response_ok j)"
  shows "fst (extract_entity_labels env net claims hist) = Inr []"
proof -
  have "fst (labels_body net ids hist) = Inr [] \<or> (\<exists>e. fst (labels_body net ids hist) = Inl e)"
  proof (cases "st = 200")
    case False
    with assms(6,7) show ?thesis by (simp add: labels_body_def io_defs)
  next
    case True
    from assms(8) show ?thesis
    proof
      assume "b = None"
      with True assms(6,7) show ?thesis by (simp add: labels_body_def io_defs)
    next
      assume "\<exists>j. b = Some j \<and> \<not> label_response_ok j"
      then obtain j where j: "b = Some j" "\<not> label_response_ok j" by blast
      from response_labels_unreadable[OF j(2)] obtain e where "response_labels j = Inl e" by blast
      with True j(1) assms(6,7) show ?thesis by (simp add: labels_body_def io_defs)
    qed
  qed
  then show ?thesis
    unfolding extract_entity_labels_body[OF assms(1-5)]
    by (cases "labels_body net ids hist") (auto split: sum.splits)
qed

lemma extract_entity_labels_read:
  assumes "referenced_ids claims = Inr raw" and "list_all hashable raw" and "enumerates env raw"
    and "filter truthy (set_order env raw) = ids" and "ids \<noteq> []" and "join_ids ids = Inr joined"
    and "net hist (label_request joined) = Response 200 (Some j)"
    and "label_response_ok j" and "distinct (map fst (response_entities j))"
  shows "fst (extract_entity_labels env net claims hist) = Inr (map (resolved_label j) ids)"
proof -
  from response_labels_some[OF assms(8)] obtain labels where l: "response_labels j = Inr labels"
    by blast
  from extract_entity_labels_resolved[where net=net and hist=hist, OF assms(1-7) l]
  have "fst (extract_entity_labels env net claims hist) = Inr (map (lookup_label labels) ids)" .
  moreover have "map (lookup_label labels) ids = map (resolved_label j) ids"
    by (simp add: response_labels_resolved[OF assms(8,9) l])
  ultimately show ?thesis by simp
qed

text \<open>
  C2, as amended. For every list of claims whose identifiers are read without a fault, each
  a string or none, the identifiers resolved are the non-empty identifiers the claims
  refer to, each once, in the order in which the runtime iterates the set of them; that
  order need not be the order of first occurrence in the claims. When the follow-up request
  is answered with status 200 and a body the label loop runs through, the label sequence
  maps these identifiers one to one, in that order, to the labels the response resolves
  them to (\<open>labels.en.value\<close> of the entity listed under the identifier, else the
  identifier). When the follow-up request raises, has another status, has a body that does
  not decode or one the label loop faults on, the label sequence is empty. (The entities of
  a decoded body have distinct keys, as the items of a Python dict have.)
\<close>

theorem label_sequence:
  assumes "referenced_ids claims = Inr raw"
    and "\<forall>x\<in>set raw. x = JNull \<or> (\<exists>s. x = JStr s)"
    and "enumerates env raw"
    and "filter truthy (set_order env raw) = ids"
    and "join_ids ids = Inr joined"
    and "net hist (label_request joined) = answer"
    and "\<forall>st j. answer = Response st (Some j) \<longrightarrow> distinct (map fst (response_entities j))"
  shows "distinct ids \<and> set ids = {x \<in> set raw. truthy x}
       \<and> (\<forall>j. answer = Response 200 (Some j) \<and> label_response_ok j \<longrightarrow>
             fst (extract_entity_labels env net claims hist) = Inr (map (resolved_label j) ids))
       \<and> (failed answer \<or> (\<exists>st. answer = Response st None)
            \<or> (\<exists>st j. answer = Response st (Some j) \<and> \<not> label_response_ok j) \<longrightarrow>
             fst (extract_entity_labels env net claims hist) = Inr [])"
proof -
  have h: "list_all hashable raw" by (rule string_ids[OF assms(2)])
  have d: "distinct ids \<and> set ids = {x \<in> set raw. truthy x}"
  proof -
    from assms(3) have "distinct (set_order env raw)" and s: "set (set_order env raw) = set raw"
      by (simp_all add: enumerates_def)
    then have "distinct (filter truthy (set_order env raw))" by simp
    moreover have "set (filter truthy (set_order env raw)) = {x \<in> set raw. truthy x}"
      by (simp only: set_filter s)
    ultimately show ?thesis unfolding assms(4) by simp
  qed
  have e: "fst (extract_entity_labels env net claims hist) = Inr []" if "ids = []"
  proof -
    from that assms(4) have "filter truthy (set_order env raw) = []" by simp
    from extract_entity_labels_none[OF assms(1) h this] show ?thesis by simp
  qed
  have a: "fst (extract_entity_labels env net claims hist) = Inr (map (resolved_label j) ids)"
    if "answer = Response 200 (Some j)" "label_response_ok j" for j
  proof (cases "ids = []")
    case True
    with e show ?thesis by simp
  next
    case False
    from that(1) assms(6,7) have n: "net hist (label_request joined) = Response 200 (Some j)"
      and k: "distinct (map fst (response_entities j))" by auto
    from extract_entity_labels_read[where net=net and hist=hist, OF assms(1) h assms(3,4) False assms(5) n that(2) k]
    show ?thesis .
  qed
  have b: "fst (extract_entity_labels env net claims hist) = Inr []"
    if "failed answer \<or> (\<exists>st. answer = Response st None)
          \<or> (\<exists>st j. answer = Response st (Some j) \<and> \<not> label_response_ok j)"
  proof (cases "ids = []")
    case True
    with e show ?thesis by simp
  next
    case False
    from that show ?thesis
    proof (elim disjE exE conjE)
      assume "failed answer"
      with assms(6) have "failed (net hist (label_request joined))" by simp
      from extract_entity_labels_failed[where net=net and hist=hist, OF assms(1) h assms(3,4) False assms(5) this]
      show ?thesis .
    next
      fix st assume "answer = Response st None"
      with assms(6) have n: "net hist (label_request joined) = Response st None" by simp
      from extract_entity_labels_unread[where net=net and hist=hist, OF assms(1) h assms(3,4) False assms(5) n]
      show ?thesis by simp
    next
      fix st j assume "answer = Response st (Some j)" and u: "\<not> label_response_ok j"
      with assms(6) have n: "net hist (label_request joined) = Response st (Some j)" by simp
      from extract_entity_labels_unread[where net=net and hist=hist, OF assms(1) h assms(3,4) False assms(5) n] u
      show ?thesis by simp
    qed
  qed
  from d a b show ?thesis by blast
qed

text \<open>
  Three claims, two of them to the same entity, against a response that has a label for Q1
  and none for Q2; and the same claims with the label request answered 503.
\<close>

theorem label_sequence_witness:
  "fst (extract_entity_labels sample_runtime eiffel_net
          (JArr [ref_claim ''Q1'', ref_claim ''Q2'', ref_claim ''Q1'']) [])
     = Inr [JStr ''iron architecture'', JStr ''Q2'']
   \<and> map (resolved_label label_payload) [JStr ''Q1'', JStr ''Q2''] = [JStr ''iron architecture'', JStr ''Q2'']
   \<and> fst (extract_entity_labels sample_runtime
          (scenario_net Failed Failed (Response 503 None) Failed)
          (JArr [ref_claim ''Q1'', ref_claim ''Q2'', ref_claim ''Q1'']) []) = Inr []"
proof -
  let ?claims = "JArr [ref_claim ''Q1'', ref_claim ''Q2'', ref_claim ''Q1'']"
  let ?raw = "[JStr ''Q1'', JStr ''Q2'', JStr ''Q1'']"
  let ?ids = "[JStr ''Q1'', JStr ''Q2'']"
  let ?mute = "scenario_net Failed Failed (Response 503 None) Failed"
  have h1: "referenced_ids ?claims = Inr ?raw"
    by (simp add: referenced_ids_def entity_id_def ref_claim_def claim_of_def dict_get_def)
  have h2: "\<forall>x\<in>set ?raw. x = JNull \<or> (\<exists>s. x = JStr s)" by simp
  have h3: "enumerates sample_runtime ?raw"
    by (auto simp: enumerates_def sample_runtime_def)
  have h4: "filter truthy (set_order sample_runtime ?raw) = ?ids"
    by (simp add: sample_runtime_def)
  have h5: "join_ids ?ids = Inr ''Q1|Q2''"
    by (simp add: join_ids_def str_item_def)
  have h6: "eiffel_net [] (label_request ''Q1|Q2'') = Response 200 (Some label_payload)"
    by (simp add: eiffel_net_def scenario_net_def label_request_def)
  have e: "response_entities label_payload =
      [(''Q1'', JObj [(''labels'', JObj [(''en'', JObj [(''value'', JStr ''iron architecture'')])])]),
       (''Q2'', JObj [(''labels'', JObj [])]),
       (''Q142'', JObj [(''labels'', JObj [(''en'', JObj [(''value'', JStr ''France'')])])])]"
    by (simp add: response_entities_def label_payload_def field_def)
  have h7: "\<forall>st j. Response 200 (Some label_payload) = Response st (Some j)
              \<longrightarrow> distinct (map fst (response_entities j))"
    by (simp add: e)
  have ok: "label_response_ok label_payload"
    unfolding label_response_ok_def e
    by (simp add: label_payload_def field_def entity_readable_def)
  have r: "map (resolved_label label_payload) ?ids = [JStr ''iron architecture'', JStr ''Q2'']"
    by (simp add: resolved_label_def e label_value_def english_label_def field_def)
  from label_sequence[where net=eiffel_net and hist="[]", OF h1 h2 h3 h4 h5 h6 h7] ok r
  have w1: "fst (extract_entity_labels sample_runtime eiffel_net ?claims []) = Inr [JStr ''iron architecture'', JStr ''Q2'']"
    by simp
  have m6: "?mute [] (label_request ''Q1|Q2'') = Response 503 None"
    by (simp add: scenario_net_def label_request_def)
  have m7: "\<forall>st j. Response 503 None = Response st (Some j) \<longrightarrow> distinct (map fst (response_entities j))"
    by simp
  from label_sequence[where net="?mute" and hist="[]", OF h1 h2 h3 h4 h5 m6 m7]
  have w2: "fst (extract_entity_labels sample_runtime ?mute ?claims []) = Inr []"
    by (simp add: failed_def)
  from w1 r w2 show ?thesis by simp
qed

text \<open>
  C2 as stated fails on the order. The claims refer to Q1, then to Q2; a runtime whose set
  comes out as Q2, Q1 gives the label of Q2 first, where the order of first occurrence has
  the label of Q1 first.
\<close>

theorem label_order_counterexample:
  "referenced_ids (JArr [ref_claim ''Q1'', ref_claim ''Q2'']) = Inr [JStr ''Q1'', JStr ''Q2'']
   \<and> first_occurrences [JStr ''Q1'', JStr ''Q2''] = [JStr ''Q1'', JStr ''Q2'']
   \<and> enumerates sample_runtime [JStr ''Q1'', JStr ''Q2'']
   \<and> fst (extract_entity_labels sample_runtime eiffel_net (JArr [ref_claim ''Q1'', ref_claim ''Q2'']) [])
       = Inr [JStr ''Q2'', JStr ''iron architecture'']
   \<and> lookup_label [''Q1'' \<mapsto> JStr ''iron architecture'', ''Q2'' \<mapsto> JStr ''Q2''] (JStr ''Q1'')
       = JStr ''iron architecture''"
proof -
  have a: "referenced_ids (JArr [ref_claim ''Q1'', ref_claim ''Q2'']) = Inr [JStr ''Q1'', JStr ''Q2'']"
    by (simp add: referenced_ids_def entity_id_def ref_claim_def claim_of_def dict_get_def)
  have b: "first_occurrences [JStr ''Q1'', JStr ''Q2''] = [JStr ''Q1'', JStr ''Q2'']"
    by (simp add: first_occurrences_def)
  have c: "enumerates sample_runtime [JStr ''Q1'', JStr ''Q2'']"
    by (auto simp: enumerates_def sample_runtime_def)
  have d: "fst (extract_entity_labels sample_runtime eiffel_net (JArr [ref_claim ''Q1'', ref_claim ''Q2'']) [])
       = Inr [JStr ''Q2'', JStr ''iron architecture'']"
    by (simp add: run_defs)
  have e: "lookup_label [''Q1'' \<mapsto> JStr ''iron architecture'', ''Q2'' \<mapsto> JStr ''Q2''] (JStr ''Q1'')
       = JStr ''iron architecture''"
    by (simp add: lookup_label_def)
  from a b c d e show ?thesis by blast
qed

text \<open>
  C7, as amended. When the follow-up request is answered with status 200 and a body the
  label loop runs through (the body, its entities, every entity listed, and the labels and
  \<open>labels.en\<close> of each are objects where they are there), an identifier that the body
  lists without the key \<open>value\<close> at \<open>labels.en\<close>, or does not list at all, stands in
  the label sequence as it is, at its own position; every identifier has the label the
  response resolves it to, which is whatever stands at \<open>labels.en.value\<close>, null too.
  When the label loop faults on the body, on whatever entity, the label sequence is empty
  and every identifier is left out.
\<close>

theorem unresolved_identifier_kept:
  assumes "referenced_ids claims = Inr raw" and "list_all hashable raw" and "enumerates env raw"
    and "filter truthy (set_order env raw) = ids"
    and "join_ids ids = Inr joined"
    and "net hist (label_request joined) = Response 200 (Some j)"
    and "i < length ids" and "ids ! i = JStr q"
    and "\<forall>data. (q, data) \<in> set (response_entities j) \<longrightarrow> english_label data = None"
  shows "(label_response_ok j \<longrightarrow>
            (\<exists>out. fst (extract_entity_labels env net claims hist) = Inr out
                  \<and> length out = length ids \<and> out ! i = JStr q))
       \<and> (label_response_ok j \<and> distinct (map fst (response_entities j)) \<longrightarrow>
            fst (extract_entity_labels env net claims hist) = Inr (map (resolved_label j) ids))
       \<and> (\<not> label_response_ok j \<longrightarrow> fst (extract_entity_labels env net claims hist) = Inr [])"
proof (intro conjI impI)
  from assms(7) have ne: "ids \<noteq> []" by auto
  {
    assume ok: "label_response_ok j"
    from response_labels_some[OF ok] obtain labels where l: "response_labels j = Inr labels" by blast
    from extract_entity_labels_resolved[where net=net and hist=hist, OF assms(1,2,3,4) ne assms(5,6) l]
    have r: "fst (extract_entity_labels env net claims hist) = Inr (map (lookup_label labels) ids)" .
    from response_labels_unlabelled[OF l assms(9)] have "lookup_label labels (JStr q) = JStr q" .
    with assms(7,8) have "map (lookup_label labels) ids ! i = JStr q" by simp
    with r show "\<exists>out. fst (extract_entity_labels env net claims hist) = Inr out
                  \<and> length out = length ids \<and> out ! i = JStr q" by simp
  }
  {
    assume "label_response_ok j \<and> distinct (map fst (response_entities j))"
    then have ok: "label_response_ok j" and k: "distinct (map fst (response_entities j))" by simp_all
    from extract_entity_labels_read[where net=net and hist=hist, OF assms(1,2,3,4) ne assms(5,6) ok k]
    show "fst (extract_entity_labels env net claims hist) = Inr (map (resolved_label j) ids)" .
  }
  {
    assume u: "\<not> label_response_ok j"
    from extract_entity_labels_unread[where net=net and hist=hist, OF assms(1,2,3,4) ne assms(5,6)] u
    show "fst (extract_entity_labels env net claims hist) = Inr []" by simp
  }
qed

text \<open>Q7 is not in the response, Q2 is there without an English label.\<close>

theorem unresolved_identifier_kept_witness:
  "label_response_ok label_payload
   \<and> map_of (response_entities label_payload) ''Q7'' = None
   \<and> map_of (response_entities label_payload) ''Q2'' = Some (JObj [(''labels'', JObj [])])
   \<and> (\<exists>out. fst (extract_entity_labels sample_runtime eiffel_net
          (JArr [ref_claim ''Q1'', ref_claim ''Q2'', ref_claim ''Q7'']) []) = Inr out
        \<and> length out = 3 \<and> out ! 0 = JStr ''Q7'' \<and> out ! 1 = JStr ''Q2'')"
proof -
  let ?claims = "JArr [ref_claim ''Q1'', ref_claim ''Q2'', ref_claim ''Q7'']"
  let ?raw = "[JStr ''Q1'', JStr ''Q2'', JStr ''Q7'']"
  let ?ids = "[JStr ''Q7'', JStr ''Q2'', JStr ''Q1'']"
  have h1: "referenced_ids ?claims = Inr ?raw"
    by (simp add: referenced_ids_def entity_id_def ref_claim_def claim_of_def dict_get_def)
  have h2: "list_all hashable ?raw" by simp
  have h3: "enumerates sample_runtime ?raw"
    by (auto simp: enumerates_def sample_runtime_def)
  have h4: "filter truthy (set_order sample_runtime ?raw) = ?ids"
    by (simp add: sample_runtime_def)
  have h5: "join_ids ?ids = Inr ''Q7|Q2|Q1''"
    by (simp add: join_ids_def str_item_def)
  have h6: "eiffel_net [] (label_request ''Q7|Q2|Q1'') = Response 200 (Some label_payload)"
    by (simp add: eiffel_net_def scenario_net_def label_request_def)
  have e: "response_entities label_payload =
      [(''Q1'', JObj [(''labels'', JObj [(''en'', JObj [(''value'', JStr ''iron architecture'')])])]),
       (''Q2'', JObj [(''labels'', JObj [])]),
       (''Q142'', JObj [(''labels'', JObj [(''en'', JObj [(''value'', JStr ''France'')])])])]"
    by (simp add: response_entities_def label_payload_def field_def)
  have ok: "label_response_ok label_payload"
    unfolding label_response_ok_def e
    by (simp add: label_payload_def field_def entity_readable_def)
  have a0: "(0::nat) < length ?ids" and b0: "?ids ! 0 = JStr ''Q7''" by simp_all
  have c0: "\<forall>data. (''Q7'', data) \<in> set (response_entities label_payload) \<longrightarrow> english_label data = None"
    unfolding e by simp
  have a1: "(1::nat) < length ?ids" and b1: "?ids ! 1 = JStr ''Q2''" by simp_all
  have c1: "\<forall>data. (''Q2'', data) \<in> set (response_entities label_payload) \<longrightarrow> english_label data = None"
    unfolding e by (simp add: english_label_def field_def)
  from unresolved_identifier_kept[where net=eiffel_net and hist="[]", OF h1 h2 h3 h4 h5 h6 a0 b0 c0] ok
  obtain out where o: "fst (extract_entity_labels sample_runtime eiffel_net ?claims []) = Inr out"
    and l: "length out = 3" and o0: "out ! 0 = JStr ''Q7''" by auto
  from unresolved_identifier_kept[where net=eiffel_net and hist="[]", OF h1 h2 h3 h4 h5 h6 a1 b1 c1] ok o
  have o1: "out ! 1 = JStr ''Q2''" by auto
  from ok o l o0 o1 show ?thesis unfolding e by simp
qed

text \<open>
  C7 as stated fails where the response lists an entity with \<open>labels\<close> null. The claims
  refer to Q1 and Q7; the response, with status 200, lists Q1 without an English label and
  does not list Q7; the label loop faults on Q1 and the label sequence is empty, with neither
  identifier in it.
\<close>

theorem malformed_label_entry_counterexample:
  "response_entities label_null_payload = [(''Q1'', JObj [(''labels'', JNull)])]
   \<and> english_label (JObj [(''labels'', JNull)]) = None
   \<and> referenced_ids (JArr [ref_claim ''Q1'', ref_claim ''Q7'']) = Inr [JStr ''Q1'', JStr ''Q7'']
   \<and> enumerates sample_runtime [JStr ''Q1'', JStr ''Q7'']
   \<and> fst (extract_entity_labels sample_runtime
          (scenario_net Failed Failed (Response 200 (Some label_null_payload)) Failed)
          (JArr [ref_claim ''Q1'', ref_claim ''Q7'']) []) = Inr []"
proof -
  have a: "response_entities label_null_payload = [(''Q1'', JObj [(''labels'', JNull)])]"
    by (simp add: response_entities_def label_null_payload_def field_def)
  have b: "english_label (JObj [(''labels'', JNull)]) = None"
    by (simp add: english_label_def field_def)
  have c: "referenced_ids (JArr [ref_claim ''Q1'', ref_claim ''Q7'']) = Inr [JStr ''Q1'', JStr ''Q7'']"
    by (simp add: referenced_ids_def entity_id_def ref_claim_def claim_of_def dict_get_def)
  have d: "enumerates sample_runtime [JStr ''Q1'', JStr ''Q7'']"
    by (auto simp: enumerates_def sample_runtime_def)
  have e: "fst (extract_entity_labels sample_runtime
          (scenario_net Failed Failed (Response 200 (Some label_null_payload)) Failed)
          (JArr [ref_claim ''Q1'', ref_claim ''Q7'']) []) = Inr []"
    by (simp add: label_null_payload_def run_defs)
  from a b c d e show ?thesis by blast
qed

text \<open>
  C3, as amended. For every non-empty set of distinct referenced identifiers, one
  resolution of labels makes exactly one follow-up request, with the identifiers joined by
  \<open>|\<close>, whatever the network answers. Its result depends on the network through the
  answer to that request alone: the same list of claims, in the same runtime, against the
  same answer gives the same label sequence, in the order of the identifiers as the runtime
  iterates their set. The fetch of an entity resolves each of its two reference properties
  on its own, so it makes at most three requests, not exactly two; and the same set of
  identifiers referred to in another order can come out in another order.
\<close>

theorem one_follow_up_request:
  assumes "referenced_ids claims = Inr raw" and "list_all hashable raw" and "enumerates env raw"
    and "filter truthy (set_order env raw) = ids" and "ids \<noteq> []" and "join_ids ids = Inr joined"
  shows "snd (extract_entity_labels env net claims hist) = hist @ [label_request joined]
       \<and> (\<exists>ss. ids = map JStr ss \<and> distinct ss \<and> joined = join ''|'' ss)
       \<and> (\<forall>net' hist'. net' hist' (label_request joined) = net hist (label_request joined) \<longrightarrow>
             fst (extract_entity_labels env net' claims hist') = fst (extract_entity_labels env net claims hist))
       \<and> (\<forall>j. net hist (label_request joined) = Response 200 (Some j) \<and> label_response_ok j
                \<and> distinct (map fst (response_entities j)) \<longrightarrow>
             fst (extract_entity_labels env net claims hist) = Inr (map (resolved_label j) ids))
       \<and> (\<forall>wikidata_id. \<exists>reqs. snd (get_wikidata_info env net wikidata_id hist) = hist @ reqs \<and> length reqs \<le> 3)"
proof -
  have a: "snd (extract_entity_labels env net claims hist) = hist @ [label_request joined]"
    by (rule extract_entity_labels_request[OF assms])
  from join_ids_strings[OF assms(6)] obtain ss where ss: "ids = map JStr ss" "joined = join ''|'' ss"
    by blast
  from assms(3,4) have "distinct ids" by (auto simp: enumerates_def)
  with ss(1) have "distinct ss" by (simp add: distinct_map)
  with ss have b: "\<exists>ss. ids = map JStr ss \<and> distinct ss \<and> joined = join ''|'' ss" by blast
  have c: "fst (extract_entity_labels env net' claims hist') = fst (extract_entity_labels env net claims hist)"
    if "net' hist' (label_request joined) = net hist (label_request joined)" for net' hist'
    using extract_entity_labels_frame[where net=net and hist=hist and net'=net' and hist'=hist', OF assms that] .
  have d: "fst (extract_entity_labels env net claims hist) = Inr (map (resolved_label j) ids)"
    if "net hist (label_request joined) = Response 200 (Some j)" "label_response_ok j"
       "distinct (map fst (response_entities j))" for j
    using extract_entity_labels_read[where net=net and hist=hist, OF assms that] .
  have e: "\<exists>reqs. snd (get_wikidata_info env net wikidata_id hist) = hist @ reqs \<and> length reqs \<le> 3"
    for wikidata_id
    by (rule get_wikidata_info_requests)
  from a b c d e show ?thesis by blast
qed

text \<open>Three identifiers, one request.\<close>

theorem one_follow_up_request_witness:
  "snd (extract_entity_labels sample_runtime eiffel_net
          (JArr [ref_claim ''Q1'', ref_claim ''Q2'', ref_claim ''Q7'']) [label_request ''Q0''])
     = [label_request ''Q0'', label_request ''Q7|Q2|Q1'']"
proof -
  let ?claims = "JArr [ref_claim ''Q1'', ref_claim ''Q2'', ref_claim ''Q7'']"
  let ?raw = "[JStr ''Q1'', JStr ''Q2'', JStr ''Q7'']"
  let ?ids = "[JStr ''Q7'', JStr ''Q2'', JStr ''Q1'']"
  have h1: "referenced_ids ?claims = Inr ?raw"
    by (simp add: referenced_ids_def entity_id_def ref_claim_def claim_of_def dict_get_def)
  have h2: "list_all hashable ?raw" by simp
  have h3: "enumerates sample_runtime ?raw"
    by (auto simp: enumerates_def sample_runtime_def)
  have h4: "filter truthy (set_order sample_runtime ?raw) = ?ids"
    by (simp add: sample_runtime_def)
  have h5: "?ids \<noteq> []" by simp
  have h6: "join_ids ?ids = Inr ''Q7|Q2|Q1''"
    by (simp add: join_ids_def str_item_def)
  from one_follow_up_request[where net=eiffel_net and hist="[label_request ''Q0'']", OF h1 h2 h3 h4 h5 h6]
  show ?thesis by simp
qed

text \<open>
  C3 as stated fails twice. The entity of the Eiffel Tower has architectural styles and a
  country, and its fetch makes three requests, not two. And the claims Q1, Q2 and the claims
  Q2, Q1 refer to the same set of identifiers, yet in a runtime that iterates a set
  last-seen element first they resolve to two different label sequences.
\<close>

theorem round_trips_and_order_counterexample:
  "snd (get_wikidata_info sample_runtime eiffel_net (JStr ''Q243'') [])
     = [entity_request (JStr ''Q243''), label_request ''Q2|Q1'', label_request ''Q142'']
   \<and> length (snd (get_wikidata_info sample_runtime eiffel_net (JStr ''Q243'') [])) = 3
   \<and> set [JStr ''Q1'', JStr ''Q2''] = set [JStr ''Q2'', JStr ''Q1'']
   \<and> enumerates sample_runtime [JStr ''Q1'', JStr ''Q2'']
   \<and> enumerates sample_runtime [JStr ''Q2'', JStr ''Q1'']
   \<and> fst (extract_entity_labels sample_runtime eiffel_net (JArr [ref_claim ''Q1'', ref_claim ''Q2'']) [])
       = Inr [JStr ''Q2'', JStr ''iron architecture'']
   \<and> fst (extract_entity_labels sample_runtime eiffel_net (JArr [ref_claim ''Q2'', ref_claim ''Q1'']) [])
       = Inr [JStr ''iron architecture'', JStr ''Q2'']"
proof -
  have a: "snd (get_wikidata_info sample_runtime eiffel_net (JStr ''Q243'') [])
     = [entity_request (JStr ''Q243''), label_request ''Q2|Q1'', label_request ''Q142'']"
    by (simp add: run_defs)
  have b: "set [JStr ''Q1'', JStr ''Q2''] = set [JStr ''Q2'', JStr ''Q1'']" by auto
  have c: "enumerates sample_runtime [JStr ''Q1'', JStr ''Q2'']"
    by (auto simp: enumerates_def sample_runtime_def)
  have d: "enumerates sample_runtime [JStr ''Q2'', JStr ''Q1'']"
    by (auto simp: enumerates_def sample_runtime_def)
  have e: "fst (extract_entity_labels sample_runtime eiffel_net (JArr [ref_claim ''Q1'', ref_claim ''Q2'']) [])
       = Inr [JStr ''Q2'', JStr ''iron architecture'']"
    by (simp add: run_defs)
  have f: "fst (extract_entity_labels sample_runtime eiffel_net (JArr [ref_claim ''Q2'', ref_claim ''Q1'']) [])
       = Inr [JStr ''iron architecture'', JStr ''Q2'']"
    by (simp add: run_defs)
  from a b c d e f show ?thesis by simp
qed

section \<open>Properties of the knowledge-graph entity\<close>














end
